theory Spec2Isabelle
  imports Complex_Main
begin

section \<open>The garden scene of nextjs-webxr\<close>

text \<open>
  The repository renders a garden: the scene assembler \<^verbatim>\<open>XRScene\<close> places
  instances of four generator components (\<^verbatim>\<open>Flower\<close>, \<^verbatim>\<open>FruitPlant\<close>,
  \<^verbatim>\<open>Tree\<close>, \<^verbatim>\<open>SmallPlant\<close>) around the origin, and every generator draws its
  style parameters from \<^verbatim>\<open>Math.random()\<close>.

  Conventions of the embedding:
  \<^item> a JavaScript number is a \<^typ>\<open>real\<close> (IEEE rounding is not modelled), and
    \<^verbatim>\<open>Math.PI\<close> is \<^term>\<open>pi\<close>;
  \<^item> the global random source is a sequence \<open>rs\<close> of numbers together with the count
    \<open>k\<close> of calls made so far: the next call returns \<open>rs k\<close>. Code that draws takes
    \<open>k\<close> and returns the new count;
  \<^item> an exception is the value \<open>None\<close>; the only one the sources can raise is the
    \<^verbatim>\<open>RangeError\<close> of \<^verbatim>\<open>Array(n)\<close> at a negative length;
  \<^item> an array read outside the array is JavaScript's \<^verbatim>\<open>undefined\<close>, again \<open>None\<close>.
\<close>

subsection \<open>The random source and array construction\<close>

type_synonym rng = "nat \<Rightarrow> real"

text \<open>\<^verbatim>\<open>Math.random()\<close>: the next number of the sequence, and one more call made.\<close>

definition Math_random :: "rng \<Rightarrow> nat \<Rightarrow> real \<times> nat" where
  "Math_random rs k = (rs k, Suc k)"

text \<open>The contract of \<^verbatim>\<open>Math.random()\<close>: every number it returns is in \<open>[0, 1)\<close>.\<close>

definition unit_draws :: "rng \<Rightarrow> bool" where
  "unit_draws rs = (\<forall>k. 0 \<le> rs k \<and> rs k < 1)"

type_synonym vec3 = "real \<times> real \<times> real"

text \<open>
  \<^verbatim>\<open>[...Array(n)].map((_, i) => f(i))\<close> over the indices \<open>ns\<close>: the callback runs
  once per index, in order, each run continuing the random sequence where the run
  before it stopped.
\<close>

fun array_map :: "(nat \<Rightarrow> nat \<Rightarrow> 'a \<times> nat) \<Rightarrow> nat list \<Rightarrow> nat \<Rightarrow> 'a list \<times> nat" where
  "array_map f [] k = ([], k)"
| "array_map f (i # ns) k =
     (case f i k of (x, k1) \<Rightarrow>
        (case array_map f ns k1 of (xs, k2) \<Rightarrow> (x # xs, k2)))"

text \<open>
  \<^verbatim>\<open>Array(n)\<close> for an integer \<open>n\<close>: the indices \<open>0, ..., n - 1\<close>, or a
  \<^verbatim>\<open>RangeError\<close> when \<open>n\<close> is negative.
\<close>

definition Array_indices :: "int \<Rightarrow> nat list option" where
  "Array_indices n = (if n < 0 then None else Some [0..<nat n])"

subsection \<open>XRScene: the placement loops\<close>

datatype component = Flower_c | FruitPlant_c | Tree_c | SmallPlant_c

text \<open>
  How a placement callback computes \<^verbatim>\<open>angle\<close>: from the index
  (\<^verbatim>\<open>(i / N) * Math.PI * 2\<close>, the three rings) or from a draw
  (\<^verbatim>\<open>Math.random() * Math.PI * 2\<close>, the three scattered groups).
\<close>

datatype sampling = Ring | Disc

text \<open>
  The six \<^verbatim>\<open>[...Array(N)].map\<close> loops of \<^verbatim>\<open>XRScene\<close> have one shape and differ in
  their constants only: the count \<open>N\<close>, how the angle is computed, the two constants of
  \<^verbatim>\<open>distance = rBase + Math.random() * rSpan\<close>, the component placed, the prefix of
  its key, and whether a \<^verbatim>\<open>rotation\<close> is drawn and passed.
\<close>

record group_spec =
  count :: nat
  sampling :: sampling
  rBase :: real
  rSpan :: real
  component :: component
  key_prefix :: string
  with_rotation :: bool

text \<open>
  One placed instance: the element the callback returns (component, key, position and
  rotation props; \<^verbatim>\<open>SmallPlant\<close> gets no rotation), and beside it the callback's
  local constants \<^verbatim>\<open>angle\<close> and \<^verbatim>\<open>distance\<close> from which the position is computed
  (the fields \<open>angle_of\<close> and \<open>distance_of\<close>).
\<close>

record placement =
  kind :: component
  key :: "string \<times> nat"
  angle_of :: real
  distance_of :: real
  position :: vec3
  rotation :: "vec3 option"

text \<open>
  The callback of a loop at index \<open>i\<close>, its statements in the source's order: the
  angle (a draw only when scattered), the distance (a draw), \<open>x\<close> and \<open>z\<close>, the rotation
  (a draw, when the loop has one).
\<close>

definition place :: "group_spec \<Rightarrow> rng \<Rightarrow> nat \<Rightarrow> nat \<Rightarrow> placement \<times> nat" where
  "place g rs i k =
     (case (case sampling g of
              Ring \<Rightarrow> ((real i / real (count g)) * pi * 2, k)
            | Disc \<Rightarrow> (case Math_random rs k of (r, k') \<Rightarrow> (r * pi * 2, k'))) of
        (angle, k1) \<Rightarrow>
     (case Math_random rs k1 of (r1, k2) \<Rightarrow>
     (let distance = rBase g + r1 * rSpan g;
          x = cos angle * distance;
          z = sin angle * distance
      in (case (if with_rotation g
                then (case Math_random rs k2 of (r2, k') \<Rightarrow>
                        (let rotation_y = r2 * pi * 2 in (Some (0, rotation_y, 0), k')))
                else (None, k2)) of
            (rot, k3) \<Rightarrow>
              (\<lparr>kind = component g, key = (key_prefix g, i), angle_of = angle,
                distance_of = distance, position = (x, - 1, z), rotation = rot\<rparr>, k3)))))"

definition place_group :: "group_spec \<Rightarrow> rng \<Rightarrow> nat \<Rightarrow> placement list \<times> nat" where
  "place_group g rs k = array_map (place g rs) [0..<count g] k"

text \<open>The six loops, in the order of the source (XRScene.tsx, lines 148 to 276).\<close>

definition ring_flowers :: group_spec where
  "ring_flowers = \<lparr>count = 20, sampling = Ring, rBase = 2.5, rSpan = 1.5,
     component = Flower_c, key_prefix = ''flower-'', with_rotation = True\<rparr>"

definition ring_fruit_plants :: group_spec where
  "ring_fruit_plants = \<lparr>count = 15, sampling = Ring, rBase = 4, rSpan = 2,
     component = FruitPlant_c, key_prefix = ''fruit-'', with_rotation = True\<rparr>"

definition ring_trees :: group_spec where
  "ring_trees = \<lparr>count = 12, sampling = Ring, rBase = 6.5, rSpan = 2,
     component = Tree_c, key_prefix = ''tree-'', with_rotation = True\<rparr>"

definition small_plants :: group_spec where
  "small_plants = \<lparr>count = 40, sampling = Disc, rBase = 1.5, rSpan = 7,
     component = SmallPlant_c, key_prefix = ''small-'', with_rotation = False\<rparr>"

definition extra_flowers :: group_spec where
  "extra_flowers = \<lparr>count = 25, sampling = Disc, rBase = 1.5, rSpan = 6,
     component = Flower_c, key_prefix = ''flower-extra-'', with_rotation = True\<rparr>"

definition extra_fruit_plants :: group_spec where
  "extra_fruit_plants = \<lparr>count = 18, sampling = Disc, rBase = 2, rSpan = 5,
     component = FruitPlant_c, key_prefix = ''fruit-extra-'', with_rotation = True\<rparr>"

definition garden_groups :: "group_spec list" where
  "garden_groups = [ring_flowers, ring_fruit_plants, ring_trees,
                    small_plants, extra_flowers, extra_fruit_plants]"

text \<open>
  \<^verbatim>\<open>XRScene\<close> itself. Its prop is the optional callback \<^verbatim>\<open>onExitXR\<close>; a callback
  \<^verbatim>\<open>() => void\<close> is a change of the world outside, \<open>'w \<Rightarrow> 'w\<close>. Of what it returns
  the model keeps the two session buttons, the exit button
  (\<^verbatim>\<open>{onExitXR && (<button onClick={onExitXR} ...>)}\<close>), the six groups of placed
  instances and the position of the grid. The lights, the cube, the potted plant and the
  orbit controls are constant elements and are left out.
\<close>

record 'w XRSceneProps =
  onExitXR :: "('w \<Rightarrow> 'w) option"

record 'w button =
  onClick :: "'w \<Rightarrow> 'w"
  button_text :: string

record 'w scene =
  xr_buttons :: "string list"
  exit_button :: "'w button option"
  groups :: "placement list list"
  grid_position :: vec3

fun place_groups :: "group_spec list \<Rightarrow> rng \<Rightarrow> nat \<Rightarrow> placement list list \<times> nat" where
  "place_groups [] rs k = ([], k)"
| "place_groups (g # gs) rs k =
     (case place_group g rs k of (ps, k1) \<Rightarrow>
        (case place_groups gs rs k1 of (pss, k2) \<Rightarrow> (ps # pss, k2)))"

definition XRScene :: "'w XRSceneProps \<Rightarrow> rng \<Rightarrow> nat \<Rightarrow> 'w scene \<times> nat" where
  "XRScene props rs k =
     (case place_groups garden_groups rs k of (gs, k') \<Rightarrow>
        (\<lparr>xr_buttons = [''VRButton'', ''ARButton''],
          exit_button = (case onExitXR props of
                           None \<Rightarrow> None
                         | Some cb \<Rightarrow> Some \<lparr>onClick = cb, button_text = ''Exit XR Mode''\<rparr>),
          groups = gs,
          grid_position = (0, - 1, 0)\<rparr>, k'))"

text \<open>A click on a button runs its \<^verbatim>\<open>onClick\<close> handler.\<close>

definition click :: "'w button \<Rightarrow> 'w \<Rightarrow> 'w" where
  "click b w = onClick b w"

subsection \<open>What a generator renders\<close>

datatype geometry =
    cylinderGeometry real real real nat
  | coneGeometry real real nat
  | sphereGeometry real nat nat

text \<open>A colour read from a palette may be \<^verbatim>\<open>undefined\<close> (\<open>None\<close>).\<close>

record material =
  color :: "string option"
  metalness :: real
  roughness :: real

text \<open>
  The parts, as the sources' comments name them: the trunk and the foliage of a tree and
  of a fruit plant (its \<^verbatim>\<open>PLANT TRUNK/STEM\<close> and \<^verbatim>\<open>PLANT LEAVES/TOP\<close>), the stem,
  the petals and the centre of a flower, the fruits of a fruit plant, the spheres of a
  small plant's cluster.
\<close>

datatype part = Trunk | Foliage | Stem | Petal | Center | Fruit | Cluster

record mesh =
  part :: part
  mesh_key :: "nat option"
  mesh_position :: vec3
  geometry :: geometry
  material :: material

text \<open>\<^verbatim>\<open><group {...props}> ... </group>\<close>: the props passed through, and the meshes.\<close>

record 'p rendered =
  group_props :: 'p
  children :: "mesh list"

text \<open>\<^verbatim>\<open>xs[i]\<close> for an integer \<open>i\<close>: \<^verbatim>\<open>undefined\<close> outside the array.\<close>

definition js_nth :: "'a list \<Rightarrow> int \<Rightarrow> 'a option" where
  "js_nth xs i = (if 0 \<le> i \<and> i < int (length xs) then Some (xs ! nat i) else None)"

text \<open>\<^verbatim>\<open>Math.floor(Math.random() * xs.length)\<close>, at the draw \<open>r\<close>.\<close>

definition palette_index :: "'a list \<Rightarrow> real \<Rightarrow> int" where
  "palette_index xs r = \<lfloor>r * real (length xs)\<rfloor>"

subsection \<open>useMemo\<close>

text \<open>
  React's \<^verbatim>\<open>useMemo(calc, deps)\<close>, which the components import: the hook's cell holds
  the value computed last and the dependency list it was computed for (nothing before
  the first render). A render calls \<open>calc\<close> when the cell is empty or a dependency has
  changed, and returns the cached value otherwise, as the sources' comments say
  (\<^verbatim>\<open>useMemo ensures the size is only calculated once when the component is created\<close>).
  It returns the value, the cell after the render and the count of draws; an exception
  of \<open>calc\<close> is passed on.
\<close>

type_synonym ('a, 'd) memo = "('a \<times> 'd) option"

definition memo_compute ::
  "(nat \<Rightarrow> ('a \<times> nat) option) \<Rightarrow> 'd \<Rightarrow> nat \<Rightarrow> (('a \<times> ('a, 'd) memo) \<times> nat) option" where
  "memo_compute calc deps k =
     (case calc k of
        None \<Rightarrow> None
      | Some (v, k') \<Rightarrow> Some ((v, Some (v, deps)), k'))"

definition useMemo ::
  "(nat \<Rightarrow> ('a \<times> nat) option) \<Rightarrow> 'd \<Rightarrow> ('a, 'd) memo \<Rightarrow> nat
     \<Rightarrow> (('a \<times> ('a, 'd) memo) \<times> nat) option" where
  "useMemo calc deps cell k =
     (case cell of
        None \<Rightarrow> memo_compute calc deps k
      | Some (v, d) \<Rightarrow> if d = deps then Some ((v, cell), k) else memo_compute calc deps k)"

subsection \<open>Tree\<close>

record Tree_hooks =
  sizeVariation_memo :: "(real, unit) memo"

definition Tree_mount :: Tree_hooks where
  "Tree_mount = \<lparr>sizeVariation_memo = None\<rparr>"

definition sizeVariation_calc :: "rng \<Rightarrow> nat \<Rightarrow> (real \<times> nat) option" where
  "sizeVariation_calc rs k = (case Math_random rs k of (r, k') \<Rightarrow> Some (0.8 + r * 0.6, k'))"

definition Tree_meshes :: "real \<Rightarrow> mesh list" where
  "Tree_meshes sizeVariation =
     [\<lparr>part = Trunk, mesh_key = None, mesh_position = (0, sizeVariation * 0.4, 0),
       geometry = cylinderGeometry 0.05 0.07 (sizeVariation * 0.8) 8,
       material = \<lparr>color = Some ''#654321'', metalness = 0.1, roughness = 0.9\<rparr>\<rparr>,
      \<lparr>part = Foliage, mesh_key = None, mesh_position = (0, sizeVariation * 0.8 + 0.4, 0),
       geometry = coneGeometry (0.4 * sizeVariation) (0.8 * sizeVariation) 8,
       material = \<lparr>color = Some ''#2d5016'', metalness = 0.1, roughness = 0.8\<rparr>\<rparr>]"

definition Tree ::
  "rng \<Rightarrow> 'p \<Rightarrow> Tree_hooks \<Rightarrow> nat \<Rightarrow> (('p rendered \<times> Tree_hooks) \<times> nat) option" where
  "Tree rs props h k =
     (case useMemo (sizeVariation_calc rs) () (sizeVariation_memo h) k of
        None \<Rightarrow> None
      | Some ((sizeVariation, c), k1) \<Rightarrow>
          Some ((\<lparr>group_props = props, children = Tree_meshes sizeVariation\<rparr>,
                 \<lparr>sizeVariation_memo = c\<rparr>), k1))"

subsection \<open>Flower\<close>

definition petalColors :: "string list" where
  "petalColors = [''#ff6b9d'', ''#ffa500'', ''#ffeb3b'', ''#4caf50'', ''#2196f3'',
                  ''#9c27b0'', ''#f44336'']"

record Flower_hooks =
  petalColor_memo :: "(string option, unit) memo"

definition Flower_mount :: Flower_hooks where
  "Flower_mount = \<lparr>petalColor_memo = None\<rparr>"

definition petalColor_calc :: "rng \<Rightarrow> nat \<Rightarrow> (string option \<times> nat) option" where
  "petalColor_calc rs k =
     (case Math_random rs k of (r, k') \<Rightarrow>
        Some (js_nth petalColors (palette_index petalColors r), k'))"

definition petal :: "string option \<Rightarrow> nat \<Rightarrow> mesh" where
  "petal petalColor i =
     (let angle = (real i / 6) * pi * 2;
          x = cos angle * 0.15;
          z = sin angle * 0.15
      in \<lparr>part = Petal, mesh_key = Some i, mesh_position = (x, 1.1, z),
          geometry = sphereGeometry 0.08 8 8,
          material = \<lparr>color = petalColor, metalness = 0.2, roughness = 0.6\<rparr>\<rparr>)"

definition Flower_meshes :: "string option \<Rightarrow> mesh list" where
  "Flower_meshes petalColor =
     [\<lparr>part = Stem, mesh_key = None, mesh_position = (0, 0.5, 0),
       geometry = cylinderGeometry 0.02 0.02 1 8,
       material = \<lparr>color = Some ''#2d5016'', metalness = 0.1, roughness = 0.8\<rparr>\<rparr>]
     @ map (petal petalColor) [0..<6]
     @ [\<lparr>part = Center, mesh_key = None, mesh_position = (0, 1.1, 0),
         geometry = sphereGeometry 0.05 8 8,
         material = \<lparr>color = Some ''#ffeb3b'', metalness = 0.3, roughness = 0.5\<rparr>\<rparr>]"

definition Flower ::
  "rng \<Rightarrow> 'p \<Rightarrow> Flower_hooks \<Rightarrow> nat \<Rightarrow> (('p rendered \<times> Flower_hooks) \<times> nat) option" where
  "Flower rs props h k =
     (case useMemo (petalColor_calc rs) () (petalColor_memo h) k of
        None \<Rightarrow> None
      | Some ((petalColor, c), k1) \<Rightarrow>
          Some ((\<lparr>group_props = props, children = Flower_meshes petalColor\<rparr>,
                 \<lparr>petalColor_memo = c\<rparr>), k1))"

subsection \<open>FruitPlant\<close>

definition fruitColors :: "string list" where
  "fruitColors = [''#ff4444'', ''#ff8800'', ''#ffaa00'', ''#ff6b35'']"

record FruitPlant_hooks =
  fruitColor_memo :: "(string option, unit) memo"
  heightVariation_memo :: "(real, unit) memo"
  fruits_memo :: "(mesh list, real \<times> string option) memo"

definition FruitPlant_mount :: FruitPlant_hooks where
  "FruitPlant_mount = \<lparr>fruitColor_memo = None, heightVariation_memo = None, fruits_memo = None\<rparr>"

definition fruitColor_calc :: "rng \<Rightarrow> nat \<Rightarrow> (string option \<times> nat) option" where
  "fruitColor_calc rs k =
     (case Math_random rs k of (r, k') \<Rightarrow>
        Some (js_nth fruitColors (palette_index fruitColors r), k'))"

definition heightVariation_calc :: "rng \<Rightarrow> nat \<Rightarrow> (real \<times> nat) option" where
  "heightVariation_calc rs k = (case Math_random rs k of (r, k') \<Rightarrow> Some (0.7 + r * 0.6, k'))"

text \<open>The callback of the fruit loop: three draws, for the angle, the radius and \<open>y\<close>.\<close>

definition fruit :: "rng \<Rightarrow> real \<Rightarrow> string option \<Rightarrow> nat \<Rightarrow> nat \<Rightarrow> mesh \<times> nat" where
  "fruit rs heightVariation fruitColor i k =
     (case Math_random rs k of (r1, k1) \<Rightarrow>
     (case Math_random rs k1 of (r2, k2) \<Rightarrow>
     (case Math_random rs k2 of (r3, k3) \<Rightarrow>
     (let angle = (real i / 6) * pi * 2 + r1 * 0.5;
          radius = 0.15 + r2 * 0.1;
          x = cos angle * radius;
          z = sin angle * radius;
          y = heightVariation + 0.2 + r3 * 0.4
      in (\<lparr>part = Fruit, mesh_key = Some i, mesh_position = (x, y, z),
           geometry = sphereGeometry 0.06 8 8,
           material = \<lparr>color = fruitColor, metalness = 0.3, roughness = 0.4\<rparr>\<rparr>, k3)))))"

definition fruits_calc ::
  "rng \<Rightarrow> real \<Rightarrow> string option \<Rightarrow> nat \<Rightarrow> (mesh list \<times> nat) option" where
  "fruits_calc rs heightVariation fruitColor k =
     (case Math_random rs k of (r, k1) \<Rightarrow>
     (let fruitCount = 4 + \<lfloor>r * 3\<rfloor>
      in (case Array_indices fruitCount of
            None \<Rightarrow> None
          | Some ns \<Rightarrow> Some (array_map (fruit rs heightVariation fruitColor) ns k1))))"

definition FruitPlant_meshes :: "real \<Rightarrow> mesh list \<Rightarrow> mesh list" where
  "FruitPlant_meshes heightVariation fruits =
     [\<lparr>part = Trunk, mesh_key = None, mesh_position = (0, heightVariation * 0.5, 0),
       geometry = cylinderGeometry 0.03 0.04 heightVariation 8,
       material = \<lparr>color = Some ''#8b4513'', metalness = 0.1, roughness = 0.9\<rparr>\<rparr>,
      \<lparr>part = Foliage, mesh_key = None, mesh_position = (0, heightVariation + 0.3, 0),
       geometry = coneGeometry 0.25 0.6 8,
       material = \<lparr>color = Some ''#4caf50'', metalness = 0.1, roughness = 0.7\<rparr>\<rparr>]
     @ fruits"

definition FruitPlant ::
  "rng \<Rightarrow> 'p \<Rightarrow> FruitPlant_hooks \<Rightarrow> nat \<Rightarrow> (('p rendered \<times> FruitPlant_hooks) \<times> nat) option" where
  "FruitPlant rs props h k =
     (case useMemo (fruitColor_calc rs) () (fruitColor_memo h) k of
        None \<Rightarrow> None
      | Some ((fruitColor, c1), k1) \<Rightarrow>
     (case useMemo (heightVariation_calc rs) () (heightVariation_memo h) k1 of
        None \<Rightarrow> None
      | Some ((heightVariation, c2), k2) \<Rightarrow>
     (case useMemo (fruits_calc rs heightVariation fruitColor) (heightVariation, fruitColor)
             (fruits_memo h) k2 of
        None \<Rightarrow> None
      | Some ((fruits, c3), k3) \<Rightarrow>
          Some ((\<lparr>group_props = props, children = FruitPlant_meshes heightVariation fruits\<rparr>,
                 \<lparr>fruitColor_memo = c1, heightVariation_memo = c2, fruits_memo = c3\<rparr>), k3))))"

subsection \<open>SmallPlant\<close>

definition greenShades :: "string list" where
  "greenShades = [''#4caf50'', ''#2d5016'', ''#66bb6a'', ''#388e3c'']"

record SmallPlant_hooks =
  plantColor_memo :: "(string option, unit) memo"
  cluster_memo :: "(mesh list, string option) memo"

definition SmallPlant_mount :: SmallPlant_hooks where
  "SmallPlant_mount = \<lparr>plantColor_memo = None, cluster_memo = None\<rparr>"

definition plantColor_calc :: "rng \<Rightarrow> nat \<Rightarrow> (string option \<times> nat) option" where
  "plantColor_calc rs k =
     (case Math_random rs k of (r, k') \<Rightarrow>
        Some (js_nth greenShades (palette_index greenShades r), k'))"

text \<open>
  The callback of the cluster loop: four draws, for \<open>x\<close>, \<open>z\<close>, \<open>y\<close> and the radius of
  the sphere.
\<close>

definition cluster_sphere :: "rng \<Rightarrow> string option \<Rightarrow> nat \<Rightarrow> nat \<Rightarrow> mesh \<times> nat" where
  "cluster_sphere rs plantColor i k =
     (case Math_random rs k of (r1, k1) \<Rightarrow>
     (case Math_random rs k1 of (r2, k2) \<Rightarrow>
     (case Math_random rs k2 of (r3, k3) \<Rightarrow>
     (case Math_random rs k3 of (r4, k4) \<Rightarrow>
     (let x = (r1 - 0.5) * 0.2;
          z = (r2 - 0.5) * 0.2;
          y = r3 * 0.15
      in (\<lparr>part = Cluster, mesh_key = Some i, mesh_position = (x, y, z),
           geometry = sphereGeometry (0.05 + r4 * 0.03) 6 6,
           material = \<lparr>color = plantColor, metalness = 0.1, roughness = 0.8\<rparr>\<rparr>, k4))))))"

definition cluster_calc :: "rng \<Rightarrow> string option \<Rightarrow> nat \<Rightarrow> (mesh list \<times> nat) option" where
  "cluster_calc rs plantColor k =
     (case Math_random rs k of (r, k1) \<Rightarrow>
     (let clusterSize = 5 + \<lfloor>r * 4\<rfloor>
      in (case Array_indices clusterSize of
            None \<Rightarrow> None
          | Some ns \<Rightarrow> Some (array_map (cluster_sphere rs plantColor) ns k1))))"

definition SmallPlant ::
  "rng \<Rightarrow> 'p \<Rightarrow> SmallPlant_hooks \<Rightarrow> nat \<Rightarrow> (('p rendered \<times> SmallPlant_hooks) \<times> nat) option" where
  "SmallPlant rs props h k =
     (case useMemo (plantColor_calc rs) () (plantColor_memo h) k of
        None \<Rightarrow> None
      | Some ((plantColor, c1), k1) \<Rightarrow>
     (case useMemo (cluster_calc rs plantColor) plantColor (cluster_memo h) k1 of
        None \<Rightarrow> None
      | Some ((cluster, c2), k2) \<Rightarrow>
          Some ((\<lparr>group_props = props, children = cluster\<rparr>,
                 \<lparr>plantColor_memo = c1, cluster_memo = c2\<rparr>), k2)))"

subsection \<open>Primitive topology\<close>

text \<open>How many meshes of a part an instance has, and the counts for all parts.\<close>

definition part_count :: "part \<Rightarrow> mesh list \<Rightarrow> nat" where
  "part_count p ms = length (filter (\<lambda>m. part m = p) ms)"

definition topology :: "mesh list \<Rightarrow> nat list" where
  "topology ms = map (\<lambda>p. part_count p ms) [Trunk, Foliage, Stem, Petal, Center, Fruit, Cluster]"

text \<open>The topology of the instance a render returns, when it returns one.\<close>

definition instance_topology :: "(('p rendered \<times> 'h) \<times> nat) option \<Rightarrow> nat list option" where
  "instance_topology res = map_option (\<lambda>r. topology (children (fst (fst r)))) res"

subsection \<open>Re-rendering\<close>

text \<open>
  A mounted instance is its output and its hook cells \<open>(out, h)\<close>. React re-renders it
  by calling the component again with the cells of the render before; \<open>ks\<close> are the
  counts of draws made so far at the times of the re-renders.
\<close>

fun rerenders ::
  "('h \<Rightarrow> nat \<Rightarrow> (('o \<times> 'h) \<times> nat) option) \<Rightarrow> nat list \<Rightarrow> 'o \<times> 'h \<Rightarrow> ('o \<times> 'h) option" where
  "rerenders render [] s = Some s"
| "rerenders render (k # ks) s =
     (case render (snd s) k of
        None \<Rightarrow> None
      | Some (s', k') \<Rightarrow> rerenders render ks s')"

text \<open>
  An instance is stable when a re-render, whatever the random source would return and
  however many draws were made in between, makes no draw and returns the output and the
  cells it had, once and any number of times in a row.
\<close>

definition stable_instance ::
  "(rng \<Rightarrow> 'h \<Rightarrow> nat \<Rightarrow> (('o \<times> 'h) \<times> nat) option) \<Rightarrow> 'o \<Rightarrow> 'h \<Rightarrow> bool" where
  "stable_instance render out h =
     (\<forall>rs. (\<forall>k. render rs h k = Some ((out, h), k)) \<and>
           (\<forall>ks. rerenders (render rs) ks (out, h) = Some (out, h)))"

subsection \<open>Notions the properties are stated with\<close>

text \<open>The number of draws one run of a placement callback makes.\<close>

definition draws_per_item :: "group_spec \<Rightarrow> nat" where
  "draws_per_item g =
     (case sampling g of Ring \<Rightarrow> 0 | Disc \<Rightarrow> 1) + 1 + (if with_rotation g then 1 else 0)"

text \<open>A random source that returns the same number at every call.\<close>

definition constant_draws :: "real \<Rightarrow> rng" where
  "constant_draws c = (\<lambda>k. c)"

text \<open>The height of a position: its second coordinate.\<close>

definition y_of :: "vec3 \<Rightarrow> real" where
  "y_of v = fst (snd v)"

text \<open>
  A ring of \<open>N\<close> instances of component \<open>c\<close> in the band \<open>[lo, hi]\<close>: \<open>N\<close> descriptors,
  the one at index \<open>i\<close> at the angle \<open>2 \<pi> i / N\<close> and at a distance within the band, its
  position computed from the two; consecutive angles are \<open>2 \<pi> / N\<close> apart.
\<close>

definition ring_placed :: "component \<Rightarrow> nat \<Rightarrow> real \<Rightarrow> real \<Rightarrow> placement list \<Rightarrow> bool" where
  "ring_placed c N lo hi ps =
     (length ps = N \<and>
      (\<forall>i<N. kind (ps ! i) = c \<and>
              angle_of (ps ! i) = 2 * pi * real i / real N \<and>
              lo \<le> distance_of (ps ! i) \<and> distance_of (ps ! i) \<le> hi \<and>
              position (ps ! i) =
                (cos (angle_of (ps ! i)) * distance_of (ps ! i), - 1,
                 sin (angle_of (ps ! i)) * distance_of (ps ! i))) \<and>
      (\<forall>i. Suc i < N \<longrightarrow> angle_of (ps ! Suc i) - angle_of (ps ! i) = 2 * pi / real N))"

text \<open>
  A scattered group of \<open>N\<close> instances of component \<open>c\<close> in the band \<open>[lo, hi]\<close>: \<open>N\<close>
  descriptors, each at an angle in \<open>[0, 2 \<pi>)\<close> and at a distance within the band.
\<close>

definition disc_placed :: "component \<Rightarrow> nat \<Rightarrow> real \<Rightarrow> real \<Rightarrow> placement list \<Rightarrow> bool" where
  "disc_placed c N lo hi ps =
     (length ps = N \<and>
      (\<forall>i<N. kind (ps ! i) = c \<and>
              0 \<le> angle_of (ps ! i) \<and> angle_of (ps ! i) < 2 * pi \<and>
              lo \<le> distance_of (ps ! i) \<and> distance_of (ps ! i) \<le> hi \<and>
              position (ps ! i) =
                (cos (angle_of (ps ! i)) * distance_of (ps ! i), - 1,
                 sin (angle_of (ps ! i)) * distance_of (ps ! i))))"

text \<open>
  How a group's angles come about. Ring: the angle at index \<open>i\<close> is
  \<^verbatim>\<open>(i / N) * Math.PI * 2\<close>. Disc: the angle at index \<open>i\<close> is
  \<^verbatim>\<open>Math.random() * Math.PI * 2\<close>, the draw being the first of the \<open>c\<close> draws of
  the \<open>i\<close>-th run of the callback, in a loop that starts at the count \<open>k\<close>.
\<close>

definition ring_sampled :: "nat \<Rightarrow> placement list \<Rightarrow> bool" where
  "ring_sampled N ps =
     (length ps = N \<and> (\<forall>i<N. angle_of (ps ! i) = real i / real N * pi * 2))"

definition disc_sampled :: "rng \<Rightarrow> nat \<Rightarrow> nat \<Rightarrow> nat \<Rightarrow> placement list \<Rightarrow> bool" where
  "disc_sampled rs k c N ps =
     (length ps = N \<and> (\<forall>i<N. angle_of (ps ! i) = rs (k + c * i) * pi * 2))"

text \<open>What a loop places, and the loops of a list that sample one way and place one component.\<close>

definition group_summary :: "group_spec \<Rightarrow> sampling \<times> component \<times> nat" where
  "group_summary g = (sampling g, component g, count g)"

definition groups_of :: "sampling \<Rightarrow> component \<Rightarrow> group_spec list \<Rightarrow> group_spec list" where
  "groups_of s c gs = filter (\<lambda>g. sampling g = s \<and> component g = c) gs"

section \<open>Properties\<close>

subsection \<open>The random source and the array loop\<close>

lemma length_array_map: "length (fst (array_map f ns k)) = length ns"
  by (induction ns arbitrary: k) (simp_all add: split_beta)

lemma nth_array_map:
  assumes "\<And>i k. P i (fst (f i k))" and "j < length ns"
  shows "P (ns ! j) (fst (array_map f ns k) ! j)"
  using assms(2)
proof (induction ns arbitrary: k j)
  case Nil
  then show ?case by simp
next
  case (Cons i ns)
  show ?case
  proof (cases j)
    case 0
    have "P i (fst (f i k))" by (rule assms(1))
    with 0 show ?thesis by (simp add: split_beta)
  next
    case (Suc j')
    with Cons.prems have "j' < length ns" by simp
    then have "P (ns ! j') (fst (array_map f ns (snd (f i k))) ! j')"
      by (rule Cons.IH)
    with Suc show ?thesis by (simp add: split_beta)
  qed
qed

lemma nth_array_map_counted:
  assumes "\<And>i k. snd (f i k) = k + c" and "j < length ns"
  shows "fst (array_map f ns k) ! j = fst (f (ns ! j) (k + c * j))"
  using assms(2)
proof (induction ns arbitrary: k j)
  case Nil
  then show ?case by simp
next
  case (Cons i ns)
  show ?case
  proof (cases j)
    case 0
    then show ?thesis by (simp add: split_beta)
  next
    case (Suc j')
    with Cons.prems have "j' < length ns" by simp
    then have "fst (array_map f ns (k + c)) ! j' = fst (f (ns ! j') (k + c + c * j'))"
      by (rule Cons.IH)
    with Suc show ?thesis by (simp add: split_beta assms(1) add.assoc)
  qed
qed

lemma set_array_map:
  assumes "\<And>i k. Q (fst (f i k))" and "x \<in> set (fst (array_map f ns k))"
  shows "Q x"
  using assms(2)
proof (induction ns arbitrary: k)
  case Nil
  then show ?case by simp
next
  case (Cons i ns)
  then show ?case
    using assms(1) [of i k] by (auto simp: split_beta)
qed

lemma snd_array_map:
  assumes "\<And>i k. snd (f i k) = k + c"
  shows "snd (array_map f ns k) = k + c * length ns"
  by (induction ns arbitrary: k) (simp_all add: split_beta assms)

lemma unit_draws_ge: "unit_draws rs \<Longrightarrow> 0 \<le> rs k"
  by (simp add: unit_draws_def)

lemma unit_draws_less: "unit_draws rs \<Longrightarrow> rs k < 1"
  by (simp add: unit_draws_def)

lemma unit_draws_constant: "0 \<le> c \<Longrightarrow> c < 1 \<Longrightarrow> unit_draws (constant_draws c)"
  by (simp add: unit_draws_def constant_draws_def)

lemma span_bounds:
  fixes r b s :: real
  assumes "0 \<le> r" "r < 1" "0 \<le> s"
  shows "b \<le> b + r * s" and "b + r * s \<le> b + s"
proof -
  show "b \<le> b + r * s" using assms by simp
  have "r * s \<le> 1 * s" using assms by (intro mult_right_mono) simp_all
  then show "b + r * s \<le> b + s" by simp
qed

subsection \<open>The placement callback\<close>

lemma place_Ring:
  assumes "sampling g = Ring"
  shows "fst (place g rs i k) =
           \<lparr>kind = component g, key = (key_prefix g, i),
            angle_of = real i / real (count g) * pi * 2,
            distance_of = rBase g + rs k * rSpan g,
            position = (cos (real i / real (count g) * pi * 2) * (rBase g + rs k * rSpan g), - 1,
                        sin (real i / real (count g) * pi * 2) * (rBase g + rs k * rSpan g)),
            rotation = (if with_rotation g then Some (0, rs (Suc k) * pi * 2, 0) else None)\<rparr>"
  using assms by (simp add: place_def Math_random_def Let_def)

lemma place_Disc:
  assumes "sampling g = Disc"
  shows "fst (place g rs i k) =
           \<lparr>kind = component g, key = (key_prefix g, i),
            angle_of = rs k * pi * 2,
            distance_of = rBase g + rs (Suc k) * rSpan g,
            position = (cos (rs k * pi * 2) * (rBase g + rs (Suc k) * rSpan g), - 1,
                        sin (rs k * pi * 2) * (rBase g + rs (Suc k) * rSpan g)),
            rotation = (if with_rotation g then Some (0, rs (Suc (Suc k)) * pi * 2, 0) else None)\<rparr>"
  using assms by (simp add: place_def Math_random_def Let_def)

lemma snd_place: "snd (place g rs i k) = k + draws_per_item g"
  by (cases "sampling g") (simp_all add: place_def Math_random_def Let_def draws_per_item_def)

lemma snd_place_group: "snd (place_group g rs k) = k + draws_per_item g * count g"
  by (simp add: place_group_def snd_array_map [where c = "draws_per_item g"] snd_place)

lemma length_place_group: "length (fst (place_group g rs k)) = count g"
  by (simp add: place_group_def length_array_map)

lemma nth_place_group:
  assumes "i < count g"
  shows "fst (place_group g rs k) ! i = fst (place g rs i (k + draws_per_item g * i))"
  using nth_array_map_counted [of "place g rs" "draws_per_item g" i "[0..<count g]" k] assms
  by (simp add: place_group_def snd_place)

lemma ring_group_sampled:
  assumes "sampling g = Ring"
  shows "ring_sampled (count g) (fst (place_group g rs k))"
  by (simp add: ring_sampled_def length_place_group nth_place_group place_Ring [OF assms])

lemma disc_group_sampled:
  assumes "sampling g = Disc"
  shows "disc_sampled rs k (draws_per_item g) (count g) (fst (place_group g rs k))"
  by (simp add: disc_sampled_def length_place_group nth_place_group place_Disc [OF assms])

lemma y_place: "y_of (position (fst (place g rs i k))) = - 1"
  by (cases "sampling g") (simp_all add: place_Ring place_Disc y_of_def)

lemma y_place_group:
  assumes "p \<in> set (fst (place_group g rs k))"
  shows "y_of (position p) = - 1"
  using set_array_map [of "\<lambda>p. y_of (position p) = - 1" "place g rs" p "[0..<count g]" k] assms
  by (simp add: place_group_def y_place)

lemma ring_group_placed:
  assumes "unit_draws rs" and "sampling g = Ring" and "0 \<le> rSpan g"
  shows "ring_placed (component g) (count g) (rBase g) (rBase g + rSpan g)
           (fst (place_group g rs k))"
proof -
  let ?ps = "fst (place_group g rs k)"
  let ?P = "\<lambda>i p. kind p = component g \<and> angle_of p = 2 * pi * real i / real (count g) \<and>
              rBase g \<le> distance_of p \<and> distance_of p \<le> rBase g + rSpan g \<and>
              position p = (cos (angle_of p) * distance_of p, - 1, sin (angle_of p) * distance_of p)"
  have step: "\<And>i k. ?P i (fst (place g rs i k))"
    using span_bounds [OF unit_draws_ge [OF assms(1)] unit_draws_less [OF assms(1)] assms(3)]
    by (simp add: place_Ring [OF assms(2)])
  have nth: "?P i (?ps ! i)" if "i < count g" for i
    using nth_array_map [of ?P "place g rs" i "[0..<count g]" k, OF step] that
    by (simp add: place_group_def)
  have gap: "angle_of (?ps ! Suc i) - angle_of (?ps ! i) = 2 * pi / real (count g)"
    if "Suc i < count g" for i
  proof -
    from that have "i < count g" by simp
    with nth [of i] nth [OF that] show ?thesis
      by (simp add: field_simps)
  qed
  show ?thesis
    unfolding ring_placed_def using length_place_group [of g rs k] nth gap by blast
qed

lemma disc_group_placed:
  assumes "unit_draws rs" and "sampling g = Disc" and "0 \<le> rSpan g"
  shows "disc_placed (component g) (count g) (rBase g) (rBase g + rSpan g)
           (fst (place_group g rs k))"
proof -
  let ?ps = "fst (place_group g rs k)"
  let ?P = "\<lambda>i p. kind p = component g \<and> 0 \<le> angle_of p \<and> angle_of p < 2 * pi \<and>
              rBase g \<le> distance_of p \<and> distance_of p \<le> rBase g + rSpan g \<and>
              position p = (cos (angle_of p) * distance_of p, - 1, sin (angle_of p) * distance_of p)"
  have step: "?P i (fst (place g rs i k))" for i k
  proof -
    have "0 \<le> rs k" and "rs k < 1"
      using assms(1) by (simp_all add: unit_draws_ge unit_draws_less)
    then have "0 \<le> rs k * pi * 2" and "rs k * pi * 2 < 2 * pi"
      by simp_all
    then show ?thesis
      using span_bounds [OF unit_draws_ge [OF assms(1)] unit_draws_less [OF assms(1)] assms(3)]
      by (simp add: place_Disc [OF assms(2)])
  qed
  have nth: "?P i (?ps ! i)" if "i < count g" for i
    using nth_array_map [of ?P "place g rs" i "[0..<count g]" k, OF step] that
    by (simp add: place_group_def)
  show ?thesis
    unfolding disc_placed_def using length_place_group [of g rs k] nth by blast
qed

subsection \<open>The groups of the scene\<close>

lemma place_groups_Cons:
  "place_groups (g # gs) rs k =
     (fst (place_group g rs k) # fst (place_groups gs rs (k + draws_per_item g * count g)),
      snd (place_groups gs rs (k + draws_per_item g * count g)))"
  using snd_place_group [of g rs k] by (simp add: split_beta)

lemma draws_of_groups:
  "draws_per_item ring_flowers * count ring_flowers = 40"
  "draws_per_item ring_fruit_plants * count ring_fruit_plants = 30"
  "draws_per_item ring_trees * count ring_trees = 24"
  "draws_per_item small_plants * count small_plants = 80"
  "draws_per_item extra_flowers * count extra_flowers = 75"
  "draws_per_item extra_fruit_plants * count extra_fruit_plants = 54"
  by (simp_all add: draws_per_item_def ring_flowers_def ring_fruit_plants_def ring_trees_def
      small_plants_def extra_flowers_def extra_fruit_plants_def)

lemma XRScene_groups:
  "groups (fst (XRScene props rs k)) =
     [fst (place_group ring_flowers rs k),
      fst (place_group ring_fruit_plants rs (k + 40)),
      fst (place_group ring_trees rs (k + 70)),
      fst (place_group small_plants rs (k + 94)),
      fst (place_group extra_flowers rs (k + 174)),
      fst (place_group extra_fruit_plants rs (k + 249))]"
  by (simp add: XRScene_def garden_groups_def split_beta place_groups_Cons draws_of_groups
      add.commute del: place_groups.simps(2))

lemma ring_sampledD:
  "ring_sampled N ps \<Longrightarrow> i < N \<Longrightarrow> angle_of (ps ! i) = real i / real N * pi * 2"
  by (simp add: ring_sampled_def)

lemma disc_sampledD:
  "disc_sampled rs k c N ps \<Longrightarrow> i < N \<Longrightarrow> angle_of (ps ! i) = rs (k + c * i) * pi * 2"
  by (simp add: disc_sampled_def)

lemma group_facts:
  "sampling ring_flowers = Ring" "count ring_flowers = 20" "component ring_flowers = Flower_c"
  "sampling ring_fruit_plants = Ring" "count ring_fruit_plants = 15"
  "component ring_fruit_plants = FruitPlant_c"
  "sampling ring_trees = Ring" "count ring_trees = 12" "component ring_trees = Tree_c"
  "sampling small_plants = Disc" "count small_plants = 40" "component small_plants = SmallPlant_c"
  "sampling extra_flowers = Disc" "count extra_flowers = 25" "component extra_flowers = Flower_c"
  "sampling extra_fruit_plants = Disc" "count extra_fruit_plants = 18"
  "component extra_fruit_plants = FruitPlant_c"
  "draws_per_item small_plants = 2" "draws_per_item extra_flowers = 3"
  "draws_per_item extra_fruit_plants = 3"
  by (simp_all add: draws_per_item_def ring_flowers_def ring_fruit_plants_def ring_trees_def
      small_plants_def extra_flowers_def extra_fruit_plants_def)

subsection \<open>Ring placement\<close>

text \<open>
  C1. For every random sequence within \<open>[0, 1)\<close>, the three rings of the scene are
  placed as rings: the first group is 20 flowers in the band \<open>[2.5, 4]\<close>, the second 15
  fruit plants in \<open>[4, 6]\<close>, the third 12 trees in \<open>[6.5, 8.5]\<close>; each loop returns
  exactly \<open>N\<close> descriptors, the descriptor at index \<open>i\<close> is at the angle \<open>2 \<pi> i / N\<close>
  (consecutive ones \<open>2 \<pi> / N\<close> apart) and its distance is within the band.
\<close>

theorem ring_tiers_placed:
  assumes "unit_draws rs"
  shows "ring_placed Flower_c 20 2.5 4 (groups (fst (XRScene props rs k)) ! 0) \<and>
         ring_placed FruitPlant_c 15 4 6 (groups (fst (XRScene props rs k)) ! 1) \<and>
         ring_placed Tree_c 12 6.5 8.5 (groups (fst (XRScene props rs k)) ! 2)"
proof -
  have "ring_placed Flower_c 20 2.5 4 (fst (place_group ring_flowers rs k))"
    using ring_group_placed [OF assms, of ring_flowers k] by (simp add: ring_flowers_def)
  moreover have "ring_placed FruitPlant_c 15 4 6 (fst (place_group ring_fruit_plants rs (k + 40)))"
    using ring_group_placed [OF assms, of ring_fruit_plants "k + 40"]
    by (simp add: ring_fruit_plants_def)
  moreover have "ring_placed Tree_c 12 6.5 8.5 (fst (place_group ring_trees rs (k + 70)))"
    using ring_group_placed [OF assms, of ring_trees "k + 70"] by (simp add: ring_trees_def)
  ultimately show ?thesis
    by (simp add: XRScene_groups)
qed

theorem ring_tiers_placed_witness:
  "unit_draws (constant_draws (1 / 2)) \<and>
   length (groups (fst (XRScene \<lparr>onExitXR = None :: (nat \<Rightarrow> nat) option\<rparr>
                          (constant_draws (1 / 2)) 0)) ! 0) = 20 \<and>
   angle_of (groups (fst (XRScene \<lparr>onExitXR = None :: (nat \<Rightarrow> nat) option\<rparr>
                            (constant_draws (1 / 2)) 0)) ! 0 ! 3) = 2 * pi * 3 / 20 \<and>
   distance_of (groups (fst (XRScene \<lparr>onExitXR = None :: (nat \<Rightarrow> nat) option\<rparr>
                               (constant_draws (1 / 2)) 0)) ! 2 ! 11) \<le> 8.5"
proof -
  have u: "unit_draws (constant_draws (1 / 2))"
    by (simp add: unit_draws_constant)
  show ?thesis
    using u ring_tiers_placed [OF u, of "\<lparr>onExitXR = None :: (nat \<Rightarrow> nat) option\<rparr>" 0]
    by (simp add: ring_placed_def)
qed

subsection \<open>Scattered placement\<close>

text \<open>
  C2. For every random sequence within \<open>[0, 1)\<close>, the three scattered groups of the
  scene (40 small plants in the band \<open>[1.5, 8.5]\<close>, 25 extra flowers in \<open>[1.5, 7.5]\<close>,
  18 extra fruit plants in \<open>[2, 7]\<close>) each consist of exactly \<open>N\<close> descriptors, each
  at an angle within \<open>[0, 2 \<pi>)\<close> and at a distance within the group's band.
\<close>

theorem scattered_groups_placed:
  assumes "unit_draws rs"
  shows "disc_placed SmallPlant_c 40 1.5 8.5 (groups (fst (XRScene props rs k)) ! 3) \<and>
         disc_placed Flower_c 25 1.5 7.5 (groups (fst (XRScene props rs k)) ! 4) \<and>
         disc_placed FruitPlant_c 18 2 7 (groups (fst (XRScene props rs k)) ! 5)"
proof -
  have "disc_placed SmallPlant_c 40 1.5 8.5 (fst (place_group small_plants rs (k + 94)))"
    using disc_group_placed [OF assms, of small_plants "k + 94"] by (simp add: small_plants_def)
  moreover have "disc_placed Flower_c 25 1.5 7.5 (fst (place_group extra_flowers rs (k + 174)))"
    using disc_group_placed [OF assms, of extra_flowers "k + 174"]
    by (simp add: extra_flowers_def)
  moreover have "disc_placed FruitPlant_c 18 2 7 (fst (place_group extra_fruit_plants rs (k + 249)))"
    using disc_group_placed [OF assms, of extra_fruit_plants "k + 249"]
    by (simp add: extra_fruit_plants_def)
  ultimately show ?thesis
    by (simp add: XRScene_groups)
qed

theorem scattered_groups_placed_witness:
  "unit_draws (constant_draws (1 / 4)) \<and>
   length (groups (fst (XRScene \<lparr>onExitXR = None :: (nat \<Rightarrow> nat) option\<rparr>
                          (constant_draws (1 / 4)) 0)) ! 3) = 40 \<and>
   angle_of (groups (fst (XRScene \<lparr>onExitXR = None :: (nat \<Rightarrow> nat) option\<rparr>
                            (constant_draws (1 / 4)) 0)) ! 4 ! 24) < 2 * pi \<and>
   distance_of (groups (fst (XRScene \<lparr>onExitXR = None :: (nat \<Rightarrow> nat) option\<rparr>
                               (constant_draws (1 / 4)) 0)) ! 5 ! 17) \<le> 7"
proof -
  have u: "unit_draws (constant_draws (1 / 4))"
    by (simp add: unit_draws_constant)
  show ?thesis
    using u scattered_groups_placed [OF u, of "\<lparr>onExitXR = None :: (nat \<Rightarrow> nat) option\<rparr>" 0]
    by (simp add: disc_placed_def)
qed

subsection \<open>The groups of the scene and their sampling\<close>

text \<open>
  The scene has one ring of flowers, not two: of the six loops only \<open>ring_flowers\<close>
  both places flowers and computes the angle from the index. The other loop that places
  flowers, the fifth, draws its angles: when every draw is \<open>0\<close> all its angles are \<open>0\<close>.
\<close>

theorem flower_ring_tiers_counterexample:
  "length (groups_of Ring Flower_c garden_groups) = 1 \<and>
   \<not> (length garden_groups = 6 \<and>
      length (groups_of Ring Flower_c garden_groups) = 2 \<and>
      length (groups_of Ring FruitPlant_c garden_groups) = 1 \<and>
      length (groups_of Ring Tree_c garden_groups) = 1 \<and>
      length (groups_of Disc Flower_c garden_groups @ groups_of Disc FruitPlant_c garden_groups) = 2 \<and>
      length (groups_of Disc SmallPlant_c garden_groups) = 1) \<and>
   \<not> ring_sampled 25 (groups (fst (XRScene \<lparr>onExitXR = None :: (nat \<Rightarrow> nat) option\<rparr>
                                       (constant_draws 0) 0)) ! 4)"
proof -
  have n: "length (groups_of Ring Flower_c garden_groups) = 1"
    by (simp add: groups_of_def garden_groups_def ring_flowers_def ring_fruit_plants_def
        ring_trees_def small_plants_def extra_flowers_def extra_fruit_plants_def)
  have "angle_of (fst (place_group extra_flowers (constant_draws 0) 174) ! 1) = 0"
    by (simp add: nth_place_group place_Disc extra_flowers_def constant_draws_def)
  then have "\<not> ring_sampled 25 (fst (place_group extra_flowers (constant_draws 0) 174))"
    using ring_sampledD [of 25 "fst (place_group extra_flowers (constant_draws 0) 174)" 1]
    by auto
  then show ?thesis
    using n by (simp add: XRScene_groups)
qed

text \<open>
  C6, amended. The scene assembler composes exactly six groups of placed instances, in
  this order: three rings (20 flowers, 15 fruit plants, 12 trees), whose angles are
  \<open>2 \<pi> i / N\<close>, and three scattered groups (40 small plants as ground cover, 25 extra
  flowers, 18 extra fruit plants), whose angles are draws of the random source.
\<close>

theorem six_groups:
  "map group_summary garden_groups =
     [(Ring, Flower_c, 20), (Ring, FruitPlant_c, 15), (Ring, Tree_c, 12),
      (Disc, SmallPlant_c, 40), (Disc, Flower_c, 25), (Disc, FruitPlant_c, 18)] \<and>
   length (groups (fst (XRScene props rs k))) = 6 \<and>
   ring_sampled 20 (groups (fst (XRScene props rs k)) ! 0) \<and>
   ring_sampled 15 (groups (fst (XRScene props rs k)) ! 1) \<and>
   ring_sampled 12 (groups (fst (XRScene props rs k)) ! 2) \<and>
   disc_sampled rs (k + 94) 2 40 (groups (fst (XRScene props rs k)) ! 3) \<and>
   disc_sampled rs (k + 174) 3 25 (groups (fst (XRScene props rs k)) ! 4) \<and>
   disc_sampled rs (k + 249) 3 18 (groups (fst (XRScene props rs k)) ! 5) \<and>
   map (map kind) (groups (fst (XRScene props rs k))) =
     map (\<lambda>g. replicate (count g) (component g)) garden_groups"
proof -
  have s: "map group_summary garden_groups =
     [(Ring, Flower_c, 20), (Ring, FruitPlant_c, 15), (Ring, Tree_c, 12),
      (Disc, SmallPlant_c, 40), (Disc, Flower_c, 25), (Disc, FruitPlant_c, 18)]"
    by (simp add: group_summary_def garden_groups_def ring_flowers_def ring_fruit_plants_def
        ring_trees_def small_plants_def extra_flowers_def extra_fruit_plants_def)
  have r: "ring_sampled 20 (fst (place_group ring_flowers rs k))"
    "ring_sampled 15 (fst (place_group ring_fruit_plants rs (k + 40)))"
    "ring_sampled 12 (fst (place_group ring_trees rs (k + 70)))"
    using ring_group_sampled [of ring_flowers rs k]
      ring_group_sampled [of ring_fruit_plants rs "k + 40"]
      ring_group_sampled [of ring_trees rs "k + 70"]
    by (simp_all add: group_facts)
  have d: "disc_sampled rs (k + 94) 2 40 (fst (place_group small_plants rs (k + 94)))"
    "disc_sampled rs (k + 174) 3 25 (fst (place_group extra_flowers rs (k + 174)))"
    "disc_sampled rs (k + 249) 3 18 (fst (place_group extra_fruit_plants rs (k + 249)))"
    using disc_group_sampled [of small_plants rs "k + 94"]
      disc_group_sampled [of extra_flowers rs "k + 174"]
      disc_group_sampled [of extra_fruit_plants rs "k + 249"]
    by (simp_all add: group_facts)
  have kinds: "map kind (fst (place_group g rs k')) = replicate (count g) (component g)" for g k'
    by (rule nth_equalityI)
      (simp_all add: length_place_group nth_place_group,
        cases "sampling g", simp_all add: place_Ring place_Disc)
  show ?thesis
    using s r d by (simp add: XRScene_groups kinds garden_groups_def group_facts)
qed

theorem six_groups_witness:
  "angle_of (groups (fst (XRScene \<lparr>onExitXR = None :: (nat \<Rightarrow> nat) option\<rparr>
                            (constant_draws (1 / 2)) 0)) ! 1 ! 5) = 5 / 15 * pi * 2 \<and>
   angle_of (groups (fst (XRScene \<lparr>onExitXR = None :: (nat \<Rightarrow> nat) option\<rparr>
                            (constant_draws (1 / 2)) 0)) ! 3 ! 9) = 1 / 2 * pi * 2"
proof -
  let ?S = "fst (XRScene \<lparr>onExitXR = None :: (nat \<Rightarrow> nat) option\<rparr> (constant_draws (1 / 2)) 0)"
  have a: "ring_sampled 15 (groups ?S ! 1)"
    and b: "disc_sampled (constant_draws (1 / 2)) (0 + 94) 2 40 (groups ?S ! 3)"
    using six_groups [of "\<lparr>onExitXR = None :: (nat \<Rightarrow> nat) option\<rparr>" "constant_draws (1 / 2)" 0]
    by blast+
  show ?thesis
    using ring_sampledD [OF a, of 5] disc_sampledD [OF b, of 9]
    by (simp add: constant_draws_def)
qed

subsection \<open>The exit button\<close>

text \<open>
  C7. The exit button is rendered exactly when the \<^verbatim>\<open>onExitXR\<close> prop is provided, and
  a click on it does what that callback does and nothing else; without the prop there is
  no exit button.
\<close>

theorem exit_button_forwards_callback:
  "map_option onClick (exit_button (fst (XRScene props rs k))) = onExitXR props \<and>
   (exit_button (fst (XRScene props rs k)) = None) = (onExitXR props = None) \<and>
   (\<forall>cb. onExitXR props = Some cb \<longrightarrow>
      (\<exists>b. exit_button (fst (XRScene props rs k)) = Some b \<and> (\<forall>w. click b w = cb w)))"
  by (cases "onExitXR props") (simp_all add: XRScene_def split_beta click_def)

theorem exit_button_forwards_callback_witness:
  "(\<exists>b. exit_button (fst (XRScene \<lparr>onExitXR = Some Suc\<rparr> (constant_draws (1 / 2)) 0)) = Some b \<and>
        click b 41 = 42) \<and>
   exit_button (fst (XRScene \<lparr>onExitXR = None :: (nat \<Rightarrow> nat) option\<rparr>
                       (constant_draws (1 / 2)) 0)) = None"
proof -
  have "\<exists>b. exit_button (fst (XRScene \<lparr>onExitXR = Some Suc\<rparr> (constant_draws (1 / 2)) 0)) = Some b \<and>
        (\<forall>w. click b w = Suc w)"
    using exit_button_forwards_callback [of "\<lparr>onExitXR = Some Suc\<rparr>" "constant_draws (1 / 2)" 0]
    by simp
  then have "\<exists>b. exit_button (fst (XRScene \<lparr>onExitXR = Some Suc\<rparr> (constant_draws (1 / 2)) 0)) = Some b \<and>
        click b 41 = 42"
    by auto
  moreover have "exit_button (fst (XRScene \<lparr>onExitXR = None :: (nat \<Rightarrow> nat) option\<rparr>
                       (constant_draws (1 / 2)) 0)) = None"
    using exit_button_forwards_callback [of "\<lparr>onExitXR = None :: (nat \<Rightarrow> nat) option\<rparr>"
        "constant_draws (1 / 2)" 0]
    by simp
  ultimately show ?thesis by blast
qed

subsection \<open>Ground height\<close>

text \<open>
  C9. Every placed instance of the six groups (130 in all) is at height \<open>y = - 1\<close>, the
  height of the reference grid, whatever the random source returns.
\<close>

theorem placed_at_ground_height:
  "(\<forall>ps \<in> set (groups (fst (XRScene props rs k))). \<forall>p \<in> set ps. y_of (position p) = - 1) \<and>
   y_of (grid_position (fst (XRScene props rs k))) = - 1 \<and>
   map length (groups (fst (XRScene props rs k))) = [20, 15, 12, 40, 25, 18]"
proof -
  have "\<forall>ps \<in> set (groups (fst (XRScene props rs k))). \<forall>p \<in> set ps. y_of (position p) = - 1"
    by (auto simp: XRScene_groups dest: y_place_group)
  moreover have "y_of (grid_position (fst (XRScene props rs k))) = - 1"
    by (simp add: XRScene_def split_beta y_of_def)
  moreover have "map length (groups (fst (XRScene props rs k))) = [20, 15, 12, 40, 25, 18]"
    by (simp add: XRScene_groups length_place_group ring_flowers_def ring_fruit_plants_def
        ring_trees_def small_plants_def extra_flowers_def extra_fruit_plants_def)
  ultimately show ?thesis by blast
qed

theorem placed_at_ground_height_witness:
  "y_of (position (groups (fst (XRScene \<lparr>onExitXR = None :: (nat \<Rightarrow> nat) option\<rparr>
                                 (constant_draws (3 / 4)) 0)) ! 3 ! 7)) = - 1"
proof -
  let ?S = "fst (XRScene \<lparr>onExitXR = None :: (nat \<Rightarrow> nat) option\<rparr> (constant_draws (3 / 4)) 0)"
  have g: "groups ?S ! 3 \<in> set (groups ?S)"
    by (simp add: XRScene_groups)
  have "length (groups ?S ! 3) = 40"
    by (simp add: XRScene_groups length_place_group small_plants_def)
  then have "groups ?S ! 3 ! 7 \<in> set (groups ?S ! 3)"
    by simp
  with g show ?thesis
    using placed_at_ground_height [of "\<lparr>onExitXR = None :: (nat \<Rightarrow> nat) option\<rparr>"
        "constant_draws (3 / 4)" 0]
    by blast
qed

subsection \<open>Rendering the generators\<close>

lemma useMemo_first:
  "useMemo calc deps None k = memo_compute calc deps k"
  by (simp add: useMemo_def)

lemma useMemo_cached:
  "useMemo calc deps (Some (v, deps)) k = Some ((v, Some (v, deps)), k)"
  by (simp add: useMemo_def)

lemma Tree_first_render:
  "Tree rs props Tree_mount k =
     Some ((\<lparr>group_props = props, children = Tree_meshes (0.8 + rs k * 0.6)\<rparr>,
            \<lparr>sizeVariation_memo = Some (0.8 + rs k * 0.6, ())\<rparr>), Suc k)"
  by (simp add: Tree_def Tree_mount_def useMemo_first memo_compute_def sizeVariation_calc_def
      Math_random_def)

lemma Tree_rerender:
  "Tree rs props \<lparr>sizeVariation_memo = Some (v, ())\<rparr> k =
     Some ((\<lparr>group_props = props, children = Tree_meshes v\<rparr>,
            \<lparr>sizeVariation_memo = Some (v, ())\<rparr>), k)"
  by (simp add: Tree_def useMemo_cached)

lemma Flower_first_render:
  "Flower rs props Flower_mount k =
     Some ((\<lparr>group_props = props,
             children = Flower_meshes (js_nth petalColors (palette_index petalColors (rs k)))\<rparr>,
            \<lparr>petalColor_memo = Some (js_nth petalColors (palette_index petalColors (rs k)), ())\<rparr>),
           Suc k)"
  by (simp add: Flower_def Flower_mount_def useMemo_first memo_compute_def petalColor_calc_def
      Math_random_def)

lemma Flower_rerender:
  "Flower rs props \<lparr>petalColor_memo = Some (c, ())\<rparr> k =
     Some ((\<lparr>group_props = props, children = Flower_meshes c\<rparr>,
            \<lparr>petalColor_memo = Some (c, ())\<rparr>), k)"
  by (simp add: Flower_def useMemo_cached)

lemma Array_indices_nonneg: "0 \<le> n \<Longrightarrow> Array_indices n = Some [0..<nat n]"
  by (simp add: Array_indices_def)

lemma fruits_calc_Some:
  assumes "0 \<le> rs k"
  shows "fruits_calc rs hv fc k =
           Some (array_map (fruit rs hv fc) [0..<nat (4 + \<lfloor>rs k * 3\<rfloor>)] (Suc k))"
proof -
  have "0 \<le> \<lfloor>rs k * 3\<rfloor>" using assms by simp
  then have "0 \<le> 4 + \<lfloor>rs k * 3\<rfloor>" by linarith
  then show ?thesis
    by (simp add: fruits_calc_def Math_random_def Array_indices_nonneg Let_def)
qed

lemma FruitPlant_first_render:
  assumes "0 \<le> rs (Suc (Suc k))"
  shows "FruitPlant rs props FruitPlant_mount k =
     (let fruitColor = js_nth fruitColors (palette_index fruitColors (rs k));
          heightVariation = 0.7 + rs (Suc k) * 0.6;
          fruits = array_map (fruit rs heightVariation fruitColor)
                     [0..<nat (4 + \<lfloor>rs (Suc (Suc k)) * 3\<rfloor>)] (Suc (Suc (Suc k)))
      in Some ((\<lparr>group_props = props, children = FruitPlant_meshes heightVariation (fst fruits)\<rparr>,
                \<lparr>fruitColor_memo = Some (fruitColor, ()),
                 heightVariation_memo = Some (heightVariation, ()),
                 fruits_memo = Some (fst fruits, (heightVariation, fruitColor))\<rparr>), snd fruits))"
  unfolding Let_def
  by (simp add: FruitPlant_def FruitPlant_mount_def useMemo_first memo_compute_def
      fruitColor_calc_def heightVariation_calc_def Math_random_def
      fruits_calc_Some [of rs "Suc (Suc k)", OF assms] split_beta)

lemma FruitPlant_rerender:
  "FruitPlant rs props
     \<lparr>fruitColor_memo = Some (fc, ()), heightVariation_memo = Some (hv, ()),
      fruits_memo = Some (fs, (hv, fc))\<rparr> k =
     Some ((\<lparr>group_props = props, children = FruitPlant_meshes hv fs\<rparr>,
            \<lparr>fruitColor_memo = Some (fc, ()), heightVariation_memo = Some (hv, ()),
             fruits_memo = Some (fs, (hv, fc))\<rparr>), k)"
  by (simp add: FruitPlant_def useMemo_cached)

lemma cluster_calc_Some:
  assumes "0 \<le> rs k"
  shows "cluster_calc rs pc k =
           Some (array_map (cluster_sphere rs pc) [0..<nat (5 + \<lfloor>rs k * 4\<rfloor>)] (Suc k))"
proof -
  have "0 \<le> \<lfloor>rs k * 4\<rfloor>" using assms by simp
  then have "0 \<le> 5 + \<lfloor>rs k * 4\<rfloor>" by linarith
  then show ?thesis
    by (simp add: cluster_calc_def Math_random_def Array_indices_nonneg Let_def)
qed

lemma SmallPlant_first_render:
  assumes "0 \<le> rs (Suc k)"
  shows "SmallPlant rs props SmallPlant_mount k =
     (let plantColor = js_nth greenShades (palette_index greenShades (rs k));
          cluster = array_map (cluster_sphere rs plantColor)
                      [0..<nat (5 + \<lfloor>rs (Suc k) * 4\<rfloor>)] (Suc (Suc k))
      in Some ((\<lparr>group_props = props, children = fst cluster\<rparr>,
                \<lparr>plantColor_memo = Some (plantColor, ()),
                 cluster_memo = Some (fst cluster, plantColor)\<rparr>), snd cluster))"
  unfolding Let_def
  by (simp add: SmallPlant_def SmallPlant_mount_def useMemo_first memo_compute_def
      plantColor_calc_def Math_random_def cluster_calc_Some [of rs "Suc k", OF assms] split_beta)

lemma SmallPlant_rerender:
  "SmallPlant rs props \<lparr>plantColor_memo = Some (pc, ()), cluster_memo = Some (cl, pc)\<rparr> k =
     Some ((\<lparr>group_props = props, children = cl\<rparr>,
            \<lparr>plantColor_memo = Some (pc, ()), cluster_memo = Some (cl, pc)\<rparr>), k)"
  by (simp add: SmallPlant_def useMemo_cached)

lemma rerenders_stable:
  assumes "\<And>k. render h k = Some ((out, h), k)"
  shows "rerenders render ks (out, h) = Some (out, h)"
  by (induction ks) (simp_all add: assms)

lemma stable_instanceI:
  assumes "\<And>rs k. render rs h k = Some ((out, h), k)"
  shows "stable_instance render out h"
  unfolding stable_instance_def
  using assms rerenders_stable [of "render rs" h out for rs] by blast

subsection \<open>Palette reads\<close>

lemma palette_index_bounds:
  assumes "0 \<le> r" and "r < 1" and "xs \<noteq> []"
  shows "0 \<le> palette_index xs r" and "palette_index xs r < int (length xs)"
proof -
  have n: "0 < real (length xs)" using assms(3) by simp
  have "0 \<le> r * real (length xs)" using assms(1) by simp
  then show "0 \<le> palette_index xs r" by (simp add: palette_index_def)
  have "r * real (length xs) < 1 * real (length xs)"
    using assms(2) n by (intro mult_strict_right_mono)
  then have "r * real (length xs) < real_of_int (int (length xs))" by simp
  then show "palette_index xs r < int (length xs)"
    unfolding palette_index_def by (simp only: floor_less_iff)
qed

lemma palette_pick:
  assumes "0 \<le> r" and "r < 1" and "xs \<noteq> []"
  shows "\<exists>c \<in> set xs. js_nth xs (palette_index xs r) = Some c"
proof -
  have a: "0 \<le> palette_index xs r" and b: "palette_index xs r < int (length xs)"
    using palette_index_bounds [OF assms] by simp_all
  then have "nat (palette_index xs r) < length xs" by linarith
  then have "xs ! nat (palette_index xs r) \<in> set xs" by simp
  then show ?thesis using a b by (simp add: js_nth_def)
qed

text \<open>
  C8. For every draw \<open>r\<close> in \<open>[0, 1)\<close> the index \<open>floor (r * length)\<close> that
  \<^verbatim>\<open>Flower\<close> (7 petal colours), \<^verbatim>\<open>FruitPlant\<close> (4 fruit colours) and
  \<^verbatim>\<open>SmallPlant\<close> (4 green shades) read their palette at is within the palette, so
  the colour selected is a colour of the palette and never \<^verbatim>\<open>undefined\<close>.
\<close>

theorem palette_index_valid:
  assumes "unit_draws rs"
  shows "0 \<le> palette_index petalColors (rs k) \<and> palette_index petalColors (rs k) < 7 \<and>
         (\<exists>c \<in> set petalColors. petalColor_calc rs k = Some (Some c, Suc k)) \<and>
         0 \<le> palette_index fruitColors (rs k) \<and> palette_index fruitColors (rs k) < 4 \<and>
         (\<exists>c \<in> set fruitColors. fruitColor_calc rs k = Some (Some c, Suc k)) \<and>
         0 \<le> palette_index greenShades (rs k) \<and> palette_index greenShades (rs k) < 4 \<and>
         (\<exists>c \<in> set greenShades. plantColor_calc rs k = Some (Some c, Suc k))"
proof -
  have r: "0 \<le> rs k" "rs k < 1"
    using assms by (simp_all add: unit_draws_ge unit_draws_less)
  have l: "length petalColors = 7" "length fruitColors = 4" "length greenShades = 4"
    by (simp_all add: petalColors_def fruitColors_def greenShades_def)
  then have ne: "petalColors \<noteq> []" "fruitColors \<noteq> []" "greenShades \<noteq> []"
    by auto
  show ?thesis
    using palette_index_bounds [OF r ne(1)] palette_index_bounds [OF r ne(2)]
      palette_index_bounds [OF r ne(3)]
      palette_pick [OF r ne(1)] palette_pick [OF r ne(2)] palette_pick [OF r ne(3)]
    by (simp add: l petalColor_calc_def fruitColor_calc_def plantColor_calc_def Math_random_def)
qed

theorem palette_index_valid_witness:
  "unit_draws (constant_draws (1 / 2)) \<and>
   palette_index petalColors (constant_draws (1 / 2) 0) < 7 \<and>
   (\<exists>c \<in> set fruitColors. fruitColor_calc (constant_draws (1 / 2)) 0 = Some (Some c, Suc 0))"
proof -
  have u: "unit_draws (constant_draws (1 / 2))"
    by (simp add: unit_draws_constant)
  show ?thesis
    using u palette_index_valid [OF u, of 0] by blast
qed

subsection \<open>Style factors\<close>

text \<open>
  C3. For every random sequence within \<open>[0, 1)\<close>, a tree mounts with a size factor
  \<^verbatim>\<open>sizeVariation\<close> within \<open>[0.8, 1.4]\<close> and a fruit plant with a height factor
  \<^verbatim>\<open>heightVariation\<close> within \<open>[0.7, 1.3]\<close>; the meshes are built with these factors.
\<close>

theorem style_factor_ranges:
  assumes "unit_draws rs"
  shows "(\<exists>out h k' v. Tree rs p1 Tree_mount k = Some ((out, h), k') \<and>
            sizeVariation_memo h = Some (v, ()) \<and> children out = Tree_meshes v \<and>
            0.8 \<le> v \<and> v \<le> 1.4) \<and>
         (\<exists>out h k' v fs. FruitPlant rs p2 FruitPlant_mount k = Some ((out, h), k') \<and>
            heightVariation_memo h = Some (v, ()) \<and> children out = FruitPlant_meshes v fs \<and>
            0.7 \<le> v \<and> v \<le> 1.3)"
proof -
  have t: "0.8 \<le> 0.8 + rs k * 0.6" "0.8 + rs k * 0.6 \<le> 1.4"
    using unit_draws_ge [OF assms, of k] unit_draws_less [OF assms, of k] by simp_all
  have f: "0.7 \<le> 0.7 + rs (Suc k) * 0.6" "0.7 + rs (Suc k) * 0.6 \<le> 1.3"
    using unit_draws_ge [OF assms, of "Suc k"] unit_draws_less [OF assms, of "Suc k"]
    by simp_all
  have "\<exists>out h k' v. Tree rs p1 Tree_mount k = Some ((out, h), k') \<and>
          sizeVariation_memo h = Some (v, ()) \<and> children out = Tree_meshes v \<and>
          0.8 \<le> v \<and> v \<le> 1.4"
    using t by (simp add: Tree_first_render)
  moreover have "\<exists>out h k' v fs. FruitPlant rs p2 FruitPlant_mount k = Some ((out, h), k') \<and>
          heightVariation_memo h = Some (v, ()) \<and> children out = FruitPlant_meshes v fs \<and>
          0.7 \<le> v \<and> v \<le> 1.3"
    using f FruitPlant_first_render [of rs k p2, OF unit_draws_ge [OF assms]]
    by (simp add: Let_def) blast
  ultimately show ?thesis by blast
qed

theorem style_factor_ranges_witness:
  "unit_draws (constant_draws (1 / 2)) \<and>
   (\<exists>out h k' v. Tree (constant_draws (1 / 2)) () Tree_mount 0 = Some ((out, h), k') \<and>
      sizeVariation_memo h = Some (v, ()) \<and> v = 11 / 10 \<and> 0.8 \<le> v \<and> v \<le> 1.4) \<and>
   (\<exists>out h k' v. FruitPlant (constant_draws (1 / 2)) () FruitPlant_mount 0 = Some ((out, h), k') \<and>
      heightVariation_memo h = Some (v, ()) \<and> v = 1 \<and> 0.7 \<le> v \<and> v \<le> 1.3)"
proof -
  let ?rs = "constant_draws (1 / 2)"
  have u: "unit_draws ?rs"
    by (simp add: unit_draws_constant)
  obtain out h k' v where T: "Tree ?rs () Tree_mount 0 = Some ((out, h), k')"
    "sizeVariation_memo h = Some (v, ())" "0.8 \<le> v" "v \<le> 1.4"
    using style_factor_ranges [OF u, of "()" 0 "()"] by blast
  obtain out2 h2 k2 v2 where F: "FruitPlant ?rs () FruitPlant_mount 0 = Some ((out2, h2), k2)"
    "heightVariation_memo h2 = Some (v2, ())" "0.7 \<le> v2" "v2 \<le> 1.3"
    using style_factor_ranges [OF u, of "()" 0 "()"] by blast
  have "v = 11 / 10"
    using T(1,2) by (auto simp: Tree_first_render constant_draws_def)
  moreover have "v2 = 1"
    using F(1,2) FruitPlant_first_render [of ?rs 0 "()"]
    by (auto simp: constant_draws_def Let_def)
  ultimately show ?thesis
    using u T F by blast
qed

subsection \<open>Part counts\<close>

lemma floor_draw_bounds:
  fixes r :: real
  assumes "0 \<le> r" and "r < 1"
  shows "0 \<le> \<lfloor>r * 3\<rfloor>" and "\<lfloor>r * 3\<rfloor> \<le> 2" and "0 \<le> \<lfloor>r * 4\<rfloor>" and "\<lfloor>r * 4\<rfloor> \<le> 3"
proof -
  show "0 \<le> \<lfloor>r * 3\<rfloor>" and "0 \<le> \<lfloor>r * 4\<rfloor>" using assms(1) by simp_all
  have "r * 3 < 3" and "r * 4 < 4" using assms(2) by simp_all
  then have "\<lfloor>r * 3\<rfloor> < 3" and "\<lfloor>r * 4\<rfloor> < 4" by (simp_all add: floor_less_iff)
  then show "\<lfloor>r * 3\<rfloor> \<le> 2" and "\<lfloor>r * 4\<rfloor> \<le> 3" by simp_all
qed

lemma part_count_all:
  assumes "\<And>m. m \<in> set ms \<Longrightarrow> part m = q"
  shows "part_count p ms = (if p = q then length ms else 0)"
  using assms unfolding part_count_def by (induction ms) auto

lemma part_fruit: "part (fst (fruit rs hv fc i k)) = Fruit"
  by (simp add: fruit_def Math_random_def Let_def)

lemma part_cluster_sphere: "part (fst (cluster_sphere rs pc i k)) = Cluster"
  by (simp add: cluster_sphere_def Math_random_def Let_def)

lemma parts_fruits:
  "m \<in> set (fst (array_map (fruit rs hv fc) ns k)) \<Longrightarrow> part m = Fruit"
  using set_array_map [of "\<lambda>m. part m = Fruit" "fruit rs hv fc" m ns k]
  by (simp add: part_fruit)

lemma parts_cluster:
  "m \<in> set (fst (array_map (cluster_sphere rs pc) ns k)) \<Longrightarrow> part m = Cluster"
  using set_array_map [of "\<lambda>m. part m = Cluster" "cluster_sphere rs pc" m ns k]
  by (simp add: part_cluster_sphere)

lemma part_count_append: "part_count p (xs @ ys) = part_count p xs + part_count p ys"
  by (simp add: part_count_def)

lemma topology_Tree_meshes: "topology (Tree_meshes v) = [1, 1, 0, 0, 0, 0, 0]"
  by (simp add: topology_def part_count_def Tree_meshes_def)

lemma topology_Flower_meshes: "topology (Flower_meshes c) = [0, 0, 1, 6, 1, 0, 0]"
  by (simp add: topology_def part_count_def Flower_meshes_def petal_def Let_def upt_rec)

lemma topology_FruitPlant_meshes:
  "topology (FruitPlant_meshes hv (fst (array_map (fruit rs hv' fc) ns k))) =
     [1, 1, 0, 0, 0, length ns, 0]"
proof -
  let ?fs = "fst (array_map (fruit rs hv' fc) ns k)"
  have "part_count p ?fs = (if p = Fruit then length ns else 0)" for p
    using part_count_all [of ?fs Fruit p] parts_fruits [of _ rs hv' fc ns k]
    by (simp add: length_array_map)
  then show ?thesis
    by (simp add: topology_def FruitPlant_meshes_def part_count_append)
      (simp add: part_count_def)
qed

lemma topology_cluster:
  "topology (fst (array_map (cluster_sphere rs pc) ns k)) = [0, 0, 0, 0, 0, 0, length ns]"
proof -
  let ?cl = "fst (array_map (cluster_sphere rs pc) ns k)"
  have "part_count p ?cl = (if p = Cluster then length ns else 0)" for p
    using part_count_all [of ?cl Cluster p] parts_cluster [of _ rs pc ns k]
    by (simp add: length_array_map)
  then show ?thesis
    by (simp add: topology_def)
qed

lemma topology_Tree: "instance_topology (Tree rs p Tree_mount k) = Some [1, 1, 0, 0, 0, 0, 0]"
  by (simp add: instance_topology_def Tree_first_render topology_Tree_meshes)

lemma topology_Flower:
  "instance_topology (Flower rs p Flower_mount k) = Some [0, 0, 1, 6, 1, 0, 0]"
  by (simp add: instance_topology_def Flower_first_render topology_Flower_meshes)

lemma topology_FruitPlant:
  assumes "0 \<le> rs (Suc (Suc k))"
  shows "instance_topology (FruitPlant rs p FruitPlant_mount k) =
           Some [1, 1, 0, 0, 0, nat (4 + \<lfloor>rs (Suc (Suc k)) * 3\<rfloor>), 0]"
  by (simp add: instance_topology_def FruitPlant_first_render [of rs k, OF assms] Let_def
      topology_FruitPlant_meshes)

lemma topology_SmallPlant:
  assumes "0 \<le> rs (Suc k)"
  shows "instance_topology (SmallPlant rs p SmallPlant_mount k) =
           Some [0, 0, 0, 0, 0, 0, nat (5 + \<lfloor>rs (Suc k) * 4\<rfloor>)]"
  by (simp add: instance_topology_def SmallPlant_first_render [of rs k, OF assms] Let_def
      topology_cluster)

text \<open>
  The part counts of \<^verbatim>\<open>FruitPlant\<close> and \<^verbatim>\<open>SmallPlant\<close> depend on the draws: when
  every draw is \<open>0\<close> a fruit plant bears 4 fruits and a small plant has 5 spheres, when
  every draw is \<open>1/2\<close> they have 5 and 7.
\<close>

theorem part_counts_counterexample:
  "unit_draws (constant_draws 0) \<and> unit_draws (constant_draws (1 / 2)) \<and>
   instance_topology (FruitPlant (constant_draws 0) () FruitPlant_mount 0) =
     Some [1, 1, 0, 0, 0, 4, 0] \<and>
   instance_topology (FruitPlant (constant_draws (1 / 2)) () FruitPlant_mount 0) =
     Some [1, 1, 0, 0, 0, 5, 0] \<and>
   instance_topology (SmallPlant (constant_draws 0) () SmallPlant_mount 0) =
     Some [0, 0, 0, 0, 0, 0, 5] \<and>
   instance_topology (SmallPlant (constant_draws (1 / 2)) () SmallPlant_mount 0) =
     Some [0, 0, 0, 0, 0, 0, 7] \<and>
   instance_topology (FruitPlant (constant_draws 0) () FruitPlant_mount 0) \<noteq>
     instance_topology (FruitPlant (constant_draws (1 / 2)) () FruitPlant_mount 0) \<and>
   instance_topology (SmallPlant (constant_draws 0) () SmallPlant_mount 0) \<noteq>
     instance_topology (SmallPlant (constant_draws (1 / 2)) () SmallPlant_mount 0)"
proof -
  have f: "\<lfloor>(1 / 2 :: real) * 3\<rfloor> = 1" "\<lfloor>(1 / 2 :: real) * 4\<rfloor> = 2"
    by (simp_all add: floor_eq_iff)
  have a: "instance_topology (FruitPlant (constant_draws 0) () FruitPlant_mount 0) =
     Some [1, 1, 0, 0, 0, 4, 0]"
    using topology_FruitPlant [of "constant_draws 0" 0 "()"] by (simp add: constant_draws_def)
  have b: "instance_topology (FruitPlant (constant_draws (1 / 2)) () FruitPlant_mount 0) =
     Some [1, 1, 0, 0, 0, 5, 0]"
    using topology_FruitPlant [of "constant_draws (1 / 2)" 0 "()"]
    by (simp add: constant_draws_def f)
  have c: "instance_topology (SmallPlant (constant_draws 0) () SmallPlant_mount 0) =
     Some [0, 0, 0, 0, 0, 0, 5]"
    using topology_SmallPlant [of "constant_draws 0" 0 "()"] by (simp add: constant_draws_def)
  have d: "instance_topology (SmallPlant (constant_draws (1 / 2)) () SmallPlant_mount 0) =
     Some [0, 0, 0, 0, 0, 0, 7]"
    using topology_SmallPlant [of "constant_draws (1 / 2)" 0 "()"]
    by (simp add: constant_draws_def f)
  show ?thesis
    by (simp add: a b c d unit_draws_constant)
qed

text \<open>
  C4, amended. For every random sequence within \<open>[0, 1)\<close>: a tree is 1 trunk and 1
  foliage cone and a flower 1 stem, 6 petals and 1 centre, whatever the draws; a fruit
  plant is 1 trunk, 1 foliage cone and \<open>4 + floor (3 r)\<close> fruits, and a small plant
  \<open>5 + floor (4 r)\<close> spheres, \<open>r\<close> being the draw the instance makes for its count (its
  third and its second draw). The counts are listed for the parts trunk, foliage, stem,
  petal, centre, fruit and cluster sphere, in this order.
\<close>

theorem generator_topology:
  assumes "unit_draws rs"
  shows "instance_topology (Tree rs p1 Tree_mount k) = Some [1, 1, 0, 0, 0, 0, 0] \<and>
         instance_topology (Flower rs p2 Flower_mount k) = Some [0, 0, 1, 6, 1, 0, 0] \<and>
         instance_topology (FruitPlant rs p3 FruitPlant_mount k) =
           Some [1, 1, 0, 0, 0, nat (4 + \<lfloor>rs (k + 2) * 3\<rfloor>), 0] \<and>
         instance_topology (SmallPlant rs p4 SmallPlant_mount k) =
           Some [0, 0, 0, 0, 0, 0, nat (5 + \<lfloor>rs (k + 1) * 4\<rfloor>)]"
  using topology_FruitPlant [of rs k p3] topology_SmallPlant [of rs k p4]
    unit_draws_ge [OF assms]
  by (simp add: topology_Tree topology_Flower)

theorem generator_topology_witness:
  "unit_draws (constant_draws (3 / 4)) \<and>
   instance_topology (Tree (constant_draws (3 / 4)) () Tree_mount 0) =
     Some [1, 1, 0, 0, 0, 0, 0] \<and>
   instance_topology (FruitPlant (constant_draws (3 / 4)) () FruitPlant_mount 0) =
     Some [1, 1, 0, 0, 0, 6, 0] \<and>
   instance_topology (SmallPlant (constant_draws (3 / 4)) () SmallPlant_mount 0) =
     Some [0, 0, 0, 0, 0, 0, 8]"
proof -
  have u: "unit_draws (constant_draws (3 / 4))"
    by (simp add: unit_draws_constant)
  have f: "\<lfloor>(3 / 4 :: real) * 3\<rfloor> = 2" "\<lfloor>(3 :: real)\<rfloor> = 3"
    by (simp_all add: floor_eq_iff)
  show ?thesis
    using u generator_topology [OF u, of "()" 0 "()" "()" "()"]
    by (simp add: constant_draws_def f)
qed

text \<open>
  C10. For every random sequence within \<open>[0, 1)\<close>, a fruit plant mounts with between 4
  and 6 fruit spheres, and a small plant with between 5 and 8 spheres, all of them
  spheres of its cluster.
\<close>

theorem sub_part_counts:
  assumes "unit_draws rs"
  shows "(\<exists>out h k'. FruitPlant rs p1 FruitPlant_mount k = Some ((out, h), k') \<and>
            4 \<le> part_count Fruit (children out) \<and> part_count Fruit (children out) \<le> 6) \<and>
         (\<exists>out h k'. SmallPlant rs p2 SmallPlant_mount k = Some ((out, h), k') \<and>
            5 \<le> part_count Cluster (children out) \<and> part_count Cluster (children out) \<le> 8 \<and>
            length (children out) = part_count Cluster (children out))"
proof -
  let ?F = "FruitPlant rs p1 FruitPlant_mount k"
  let ?S = "SmallPlant rs p2 SmallPlant_mount k"
  let ?nf = "nat (4 + \<lfloor>rs (Suc (Suc k)) * 3\<rfloor>)"
  let ?ns = "nat (5 + \<lfloor>rs (Suc k) * 4\<rfloor>)"
  have r2: "0 \<le> rs (Suc (Suc k))" "rs (Suc (Suc k)) < 1"
    and r1: "0 \<le> rs (Suc k)" "rs (Suc k) < 1"
    using assms by (simp_all add: unit_draws_ge unit_draws_less)
  have bf: "4 \<le> ?nf" "?nf \<le> 6"
    using floor_draw_bounds(1,2) [OF r2] by linarith+
  have bs: "5 \<le> ?ns" "?ns \<le> 8"
    using floor_draw_bounds(3,4) [OF r1] by linarith+
  obtain outF hF kF where F: "?F = Some ((outF, hF), kF)"
    using FruitPlant_first_render [of rs k p1, OF unit_draws_ge [OF assms]]
    by (simp add: Let_def)
  obtain outS hS kS where S: "?S = Some ((outS, hS), kS)"
    using SmallPlant_first_render [of rs k p2, OF unit_draws_ge [OF assms]]
    by (simp add: Let_def)
  have tF: "topology (children outF) = [1, 1, 0, 0, 0, ?nf, 0]"
    using topology_FruitPlant [of rs k p1, OF unit_draws_ge [OF assms]] F
    by (simp add: instance_topology_def)
  have tS: "topology (children outS) = [0, 0, 0, 0, 0, 0, ?ns]"
    using topology_SmallPlant [of rs k p2, OF unit_draws_ge [OF assms]] S
    by (simp add: instance_topology_def)
  have lS: "length (children outS) = ?ns"
    using SmallPlant_first_render [of rs k p2, OF unit_draws_ge [OF assms]] S
    by (auto simp: Let_def length_array_map)
  from tF have cF: "part_count Fruit (children outF) = ?nf"
    by (simp add: topology_def)
  from tS have cS: "part_count Cluster (children outS) = ?ns"
    by (simp add: topology_def)
  show ?thesis
    using F S bf bs lS cF cS by simp
qed

theorem sub_part_counts_witness:
  "unit_draws (constant_draws (1 / 2)) \<and>
   (\<exists>out h k'. FruitPlant (constant_draws (1 / 2)) () FruitPlant_mount 0 = Some ((out, h), k') \<and>
      part_count Fruit (children out) = 5 \<and>
      4 \<le> part_count Fruit (children out) \<and> part_count Fruit (children out) \<le> 6) \<and>
   (\<exists>out h k'. SmallPlant (constant_draws (1 / 2)) () SmallPlant_mount 0 = Some ((out, h), k') \<and>
      part_count Cluster (children out) = 7 \<and>
      5 \<le> part_count Cluster (children out) \<and> part_count Cluster (children out) \<le> 8)"
proof -
  let ?rs = "constant_draws (1 / 2)"
  have u: "unit_draws ?rs"
    by (simp add: unit_draws_constant)
  have f: "\<lfloor>(1 / 2 :: real) * 3\<rfloor> = 1" "\<lfloor>(1 / 2 :: real) * 4\<rfloor> = 2"
    by (simp_all add: floor_eq_iff)
  obtain out h k' where F: "FruitPlant ?rs () FruitPlant_mount 0 = Some ((out, h), k')"
    "4 \<le> part_count Fruit (children out)" "part_count Fruit (children out) \<le> 6"
    using sub_part_counts [OF u, of "()" 0 "()"] by blast
  obtain out2 h2 k2 where S: "SmallPlant ?rs () SmallPlant_mount 0 = Some ((out2, h2), k2)"
    "5 \<le> part_count Cluster (children out2)" "part_count Cluster (children out2) \<le> 8"
    using sub_part_counts [OF u, of "()" 0 "()"] by blast
  have "part_count Fruit (children out) = 5"
    using topology_FruitPlant [of ?rs 0 "()"] F(1)
    by (simp add: instance_topology_def topology_def constant_draws_def f)
  moreover have "part_count Cluster (children out2) = 7"
    using topology_SmallPlant [of ?rs 0 "()"] S(1)
    by (simp add: instance_topology_def topology_def constant_draws_def f)
  ultimately show ?thesis
    using u F S by blast
qed

subsection \<open>Stability under re-rendering\<close>

text \<open>
  What the first render of a fruit plant and of a small plant returns, draw by draw: the
  sub-part at index \<open>i\<close> is computed from the draws that follow the count draw, three
  per fruit and four per sphere.
\<close>

lemma array_map_counted:
  assumes "\<And>i k. snd (f i k) = k + c"
  shows "fst (array_map f [0..<n] k) = map (\<lambda>i. fst (f i (k + c * i))) [0..<n]"
  by (rule nth_equalityI)
    (simp_all add: length_array_map nth_array_map_counted [of f c, OF assms])

lemma snd_fruit: "snd (fruit rs hv fc i k) = k + 3"
  by (simp add: fruit_def Math_random_def Let_def)

lemma snd_cluster_sphere: "snd (cluster_sphere rs pc i k) = k + 4"
  by (simp add: cluster_sphere_def Math_random_def Let_def)

lemma fruits_counted:
  "array_map (fruit rs hv fc) [0..<n] k =
     (map (\<lambda>i. fst (fruit rs hv fc i (k + 3 * i))) [0..<n], k + 3 * n)"
  using array_map_counted [of "fruit rs hv fc" 3 n k]
    snd_array_map [of "fruit rs hv fc" 3 "[0..<n]" k]
  by (simp add: snd_fruit prod_eq_iff)

lemma cluster_counted:
  "array_map (cluster_sphere rs pc) [0..<n] k =
     (map (\<lambda>i. fst (cluster_sphere rs pc i (k + 4 * i))) [0..<n], k + 4 * n)"
  using array_map_counted [of "cluster_sphere rs pc" 4 n k]
    snd_array_map [of "cluster_sphere rs pc" 4 "[0..<n]" k]
  by (simp add: snd_cluster_sphere prod_eq_iff)

lemma FruitPlant_mounted:
  assumes "0 \<le> rs (k + 2)"
  shows "FruitPlant rs props FruitPlant_mount k =
     (let fruitColor = js_nth fruitColors (palette_index fruitColors (rs k));
          heightVariation = 0.7 + rs (k + 1) * 0.6;
          fruitCount = nat (4 + \<lfloor>rs (k + 2) * 3\<rfloor>);
          fruits = map (\<lambda>i. fst (fruit rs heightVariation fruitColor i (k + 3 + 3 * i)))
                     [0..<fruitCount]
      in Some ((\<lparr>group_props = props, children = FruitPlant_meshes heightVariation fruits\<rparr>,
                \<lparr>fruitColor_memo = Some (fruitColor, ()),
                 heightVariation_memo = Some (heightVariation, ()),
                 fruits_memo = Some (fruits, (heightVariation, fruitColor))\<rparr>),
               k + 3 + 3 * fruitCount))"
proof -
  have a: "0 \<le> rs (Suc (Suc k))" using assms by simp
  have e: "Suc (Suc (Suc (k + j))) = k + 3 + j" for j by simp
  show ?thesis
    using FruitPlant_first_render [of rs k props, OF a]
    by (simp add: Let_def fruits_counted e)
qed

lemma SmallPlant_mounted:
  assumes "0 \<le> rs (k + 1)"
  shows "SmallPlant rs props SmallPlant_mount k =
     (let plantColor = js_nth greenShades (palette_index greenShades (rs k));
          clusterSize = nat (5 + \<lfloor>rs (k + 1) * 4\<rfloor>);
          cluster = map (\<lambda>i. fst (cluster_sphere rs plantColor i (k + 2 + 4 * i)))
                      [0..<clusterSize]
      in Some ((\<lparr>group_props = props, children = cluster\<rparr>,
                \<lparr>plantColor_memo = Some (plantColor, ()),
                 cluster_memo = Some (cluster, plantColor)\<rparr>),
               k + 2 + 4 * clusterSize))"
proof -
  have a: "0 \<le> rs (Suc k)" using assms by simp
  show ?thesis
    using SmallPlant_first_render [of rs k props, OF a]
    by (simp add: Let_def cluster_counted)
qed

text \<open>
  C5. For every random sequence within \<open>[0, 1)\<close>, the first render of each of the four
  generators computes every style parameter once, from draws of its own, and stores it:
  a tree makes one draw (the size factor), a flower one (the petal colour), a fruit
  plant \<open>3 + 3 n\<close> (the fruit colour, the height factor, the fruit count \<open>n\<close> and three
  per fruit), a small plant \<open>2 + 4 n\<close> (the colour, the cluster size \<open>n\<close> and four per
  sphere). The theorem gives the meshes, the memo cells and the count of draws of the
  mount, and the mounted instance is stable: a later re-render with the same props makes
  no draw and returns the same meshes and the same memoized style parameters (size or
  height factor, colour, sub-part count and sub-part placements), however often it
  happens.
\<close>

theorem memoized_style_stable:
  assumes "unit_draws rs"
  shows
    "(let sizeVariation = 0.8 + rs k * 0.6;
          out = \<lparr>group_props = p1, children = Tree_meshes sizeVariation\<rparr>;
          h = \<lparr>sizeVariation_memo = Some (sizeVariation, ())\<rparr>
      in Tree rs p1 Tree_mount k = Some ((out, h), k + 1) \<and>
         stable_instance (\<lambda>rs'. Tree rs' p1) out h) \<and>
     (let petalColor = js_nth petalColors (palette_index petalColors (rs k));
          out = \<lparr>group_props = p2, children = Flower_meshes petalColor\<rparr>;
          h = \<lparr>petalColor_memo = Some (petalColor, ())\<rparr>
      in Flower rs p2 Flower_mount k = Some ((out, h), k + 1) \<and>
         stable_instance (\<lambda>rs'. Flower rs' p2) out h) \<and>
     (let fruitColor = js_nth fruitColors (palette_index fruitColors (rs k));
          heightVariation = 0.7 + rs (k + 1) * 0.6;
          fruitCount = nat (4 + \<lfloor>rs (k + 2) * 3\<rfloor>);
          fruits = map (\<lambda>i. fst (fruit rs heightVariation fruitColor i (k + 3 + 3 * i)))
                     [0..<fruitCount];
          out = \<lparr>group_props = p3, children = FruitPlant_meshes heightVariation fruits\<rparr>;
          h = \<lparr>fruitColor_memo = Some (fruitColor, ()),
               heightVariation_memo = Some (heightVariation, ()),
               fruits_memo = Some (fruits, (heightVariation, fruitColor))\<rparr>
      in FruitPlant rs p3 FruitPlant_mount k = Some ((out, h), k + 3 + 3 * fruitCount) \<and>
         stable_instance (\<lambda>rs'. FruitPlant rs' p3) out h) \<and>
     (let plantColor = js_nth greenShades (palette_index greenShades (rs k));
          clusterSize = nat (5 + \<lfloor>rs (k + 1) * 4\<rfloor>);
          cluster = map (\<lambda>i. fst (cluster_sphere rs plantColor i (k + 2 + 4 * i)))
                      [0..<clusterSize];
          out = \<lparr>group_props = p4, children = cluster\<rparr>;
          h = \<lparr>plantColor_memo = Some (plantColor, ()),
               cluster_memo = Some (cluster, plantColor)\<rparr>
      in SmallPlant rs p4 SmallPlant_mount k = Some ((out, h), k + 2 + 4 * clusterSize) \<and>
         stable_instance (\<lambda>rs'. SmallPlant rs' p4) out h)"
proof -
  have t: "stable_instance (\<lambda>rs'. Tree rs' p1) \<lparr>group_props = p1, children = Tree_meshes v\<rparr>
             \<lparr>sizeVariation_memo = Some (v, ())\<rparr>" for v
    by (rule stable_instanceI) (simp add: Tree_rerender)
  have f: "stable_instance (\<lambda>rs'. Flower rs' p2) \<lparr>group_props = p2, children = Flower_meshes c\<rparr>
             \<lparr>petalColor_memo = Some (c, ())\<rparr>" for c
    by (rule stable_instanceI) (simp add: Flower_rerender)
  have fp: "stable_instance (\<lambda>rs'. FruitPlant rs' p3)
             \<lparr>group_props = p3, children = FruitPlant_meshes hv fs\<rparr>
             \<lparr>fruitColor_memo = Some (fc, ()), heightVariation_memo = Some (hv, ()),
              fruits_memo = Some (fs, (hv, fc))\<rparr>" for hv fs fc
    by (rule stable_instanceI) (simp add: FruitPlant_rerender)
  have sp: "stable_instance (\<lambda>rs'. SmallPlant rs' p4) \<lparr>group_props = p4, children = cl\<rparr>
             \<lparr>plantColor_memo = Some (pc, ()), cluster_memo = Some (cl, pc)\<rparr>" for cl pc
    by (rule stable_instanceI) (simp add: SmallPlant_rerender)
  have 1: "Tree rs p1 Tree_mount k =
      Some ((\<lparr>group_props = p1, children = Tree_meshes (0.8 + rs k * 0.6)\<rparr>,
             \<lparr>sizeVariation_memo = Some (0.8 + rs k * 0.6, ())\<rparr>), k + 1)"
    by (simp add: Tree_first_render)
  have 2: "Flower rs p2 Flower_mount k =
      Some ((\<lparr>group_props = p2,
              children = Flower_meshes (js_nth petalColors (palette_index petalColors (rs k)))\<rparr>,
             \<lparr>petalColor_memo =
                Some (js_nth petalColors (palette_index petalColors (rs k)), ())\<rparr>), k + 1)"
    by (simp add: Flower_first_render)
  show ?thesis
    unfolding Let_def
    using 1 2 FruitPlant_mounted [of rs k p3, OF unit_draws_ge [OF assms], unfolded Let_def]
      SmallPlant_mounted [of rs k p4, OF unit_draws_ge [OF assms], unfolded Let_def]
      t f fp sp
    by blast
qed

theorem memoized_style_stable_witness:
  "unit_draws (constant_draws (1 / 2)) \<and>
   Tree (constant_draws (1 / 2)) () Tree_mount 0 =
     Some ((\<lparr>group_props = (), children = Tree_meshes (11 / 10)\<rparr>,
            \<lparr>sizeVariation_memo = Some (11 / 10, ())\<rparr>), 1) \<and>
   Tree (constant_draws (1 / 4)) ()  \<lparr>sizeVariation_memo = Some (11 / 10, ())\<rparr> 7 =
     Some ((\<lparr>group_props = (), children = Tree_meshes (11 / 10)\<rparr>,
            \<lparr>sizeVariation_memo = Some (11 / 10, ())\<rparr>), 7) \<and>
   (\<exists>out h. FruitPlant (constant_draws (1 / 2)) () FruitPlant_mount 0 = Some ((out, h), 18) \<and>
      length (children out) = 7 \<and>
      heightVariation_memo h = Some (1, ()) \<and>
      FruitPlant (constant_draws (1 / 4)) () h 30 = Some ((out, h), 30) \<and>
      rerenders (FruitPlant (constant_draws (1 / 4)) ()) [30, 31, 32] (out, h) = Some (out, h))"
proof -
  let ?rs = "constant_draws (1 / 2)"
  have u: "unit_draws ?rs"
    by (simp add: unit_draws_constant)
  have fl: "\<lfloor>(1 / 2 :: real) * 3\<rfloor> = 1"
    by (simp add: floor_eq_iff)
  note m = memoized_style_stable [OF u, of 0 "()" "()" "()" "()", unfolded Let_def]
  have T: "Tree ?rs () Tree_mount 0 =
     Some ((\<lparr>group_props = (), children = Tree_meshes (11 / 10)\<rparr>,
            \<lparr>sizeVariation_memo = Some (11 / 10, ())\<rparr>), 1)"
    and Ts: "stable_instance (\<lambda>rs'. Tree rs' ()) \<lparr>group_props = (), children = Tree_meshes (11 / 10)\<rparr>
            \<lparr>sizeVariation_memo = Some (11 / 10, ())\<rparr>"
    using m by (simp_all add: constant_draws_def)
  from m obtain out h where F: "FruitPlant ?rs () FruitPlant_mount 0 = Some ((out, h), 18)"
    "length (children out) = 7" "heightVariation_memo h = Some (1, ())"
    "stable_instance (\<lambda>rs'. FruitPlant rs' ()) out h"
    by (simp add: constant_draws_def fl FruitPlant_meshes_def)
  show ?thesis
    using u T Ts F unfolding stable_instance_def by blast
qed

end
